theory Spec2Isabelle
  imports Complex_Main "HOL-Library.Sublist" "HOL-Library.Word"
begin

section \<open>Data model (types.ts)\<close>

text \<open>
  Instants (\<^verbatim>\<open>Date\<close>) are milliseconds on the local time scale of the browser, taken with a
  fixed offset to UTC. The counts are the integers that the forms produce with \<^verbatim>\<open>parseInt\<close>.
  Field names that clash between the three interfaces carry a suffix. An operation reads the
  clock with \<^verbatim>\<open>new Date()\<close>; the instant it reads is its argument \<open>now\<close>, the same for every
  read within one call.
\<close>

type_synonym instant = int

text \<open>
  A JavaScript string is a sequence of 16-bit code units; \<open>lit\<close> is the string that an ASCII
  literal of the source denotes.
\<close>

type_synonym code_unit = "16 word"

type_synonym jstring = "code_unit list"

definition lit :: "string \<Rightarrow> jstring" where
  "lit s = map of_char s"

datatype alert_type =
  low_count | refill_needed | schedule_reminder | medicine_time | out_of_stock | sync_success

record Medicine =
  id_med :: jstring
  name_med :: jstring
  timesPerDay :: int
  totalCount :: int
  currentCount :: int
  customMessage :: "jstring option"
  scheduleTime :: jstring
  createdAt_med :: instant
  updatedAt_med :: instant

record MedicineBox =
  id_box :: jstring
  name_box :: jstring
  boxId :: jstring
  ipAddress :: jstring
  userId :: jstring
  medicines :: "Medicine list"
  isConnected :: bool
  lastSyncAt :: "instant option"
  createdAt_box :: instant
  updatedAt_box :: instant

record Alert =
  id_alert :: jstring
  medicineId :: jstring
  medicineName :: jstring
  boxName :: jstring
  type_alert :: alert_type
  message :: jstring
  isRead :: bool
  createdAt_alert :: instant

section \<open>Platform functions used by the data service\<close>

text \<open>\<^verbatim>\<open>String.prototype.split(',')\<close>: always at least one piece, empty pieces kept.\<close>

fun split_comma :: "jstring \<Rightarrow> jstring list" where
  "split_comma [] = [Nil]"
| "split_comma (c # cs) =
     (if c = of_char (CHR '','') then [] # split_comma cs
      else (case split_comma cs of
              [] \<Rightarrow> [c # Nil]
            | p # ps \<Rightarrow> (c # p) # ps))"

text \<open>\<^verbatim>\<open>String.prototype.trim()\<close> strips white space and line terminators from both ends:
  tab, line feed, vertical tab, form feed, carriage return, space, no-break space, the other
  space separators (U+1680, U+2000 to U+200A, U+202F, U+205F, U+3000), the line and paragraph
  separators U+2028 and U+2029, and U+FEFF.\<close>

definition is_space :: "code_unit \<Rightarrow> bool" where
  "is_space c =
     (c \<in> set [0x0009, 0x000A, 0x000B, 0x000C, 0x000D, 0x0020, 0x00A0, 0x1680,
               0x2000, 0x2001, 0x2002, 0x2003, 0x2004, 0x2005, 0x2006, 0x2007, 0x2008, 0x2009,
               0x200A, 0x2028, 0x2029, 0x202F, 0x205F, 0x3000, 0xFEFF])"

definition trim :: "jstring \<Rightarrow> jstring" where
  "trim s = rev (dropWhile is_space (rev (dropWhile is_space s)))"

text \<open>\<^verbatim>\<open>s.includes(t)\<close>: \<open>t\<close> occurs in \<open>s\<close> as a contiguous run.\<close>

definition includes_str :: "jstring \<Rightarrow> jstring \<Rightarrow> bool" where
  "includes_str s t = sublist t s"

text \<open>Template-literal rendering of an integer.\<close>

definition digit_char :: "nat \<Rightarrow> code_unit" where
  "digit_char d = lit ''0123456789'' ! d"

fun digits :: "nat \<Rightarrow> jstring" where
  "digits n = (if n < 10 then [digit_char n] else digits (n div 10) @ [digit_char (n mod 10)])"

definition num_toString :: "int \<Rightarrow> jstring" where
  "num_toString n = (if n < 0 then of_char (CHR ''-'') # digits (nat (- n)) else digits (nat n))"

text \<open>\<^verbatim>\<open>now.toTimeString().slice(0, 5)\<close>: the local wall-clock time as \<^verbatim>\<open>HH:MM\<close>.\<close>

definition two_digits :: "int \<Rightarrow> jstring" where
  "two_digits n = [digit_char (nat (n div 10)), digit_char (nat (n mod 10))]"

definition toTimeString5 :: "instant \<Rightarrow> jstring" where
  "toTimeString5 t =
     two_digits ((t div 3600000) mod 24) @ lit '':'' @ two_digits ((t div 60000) mod 60)"

text \<open>\<^verbatim>\<open>toDateString()\<close> names the local calendar day; the service only compares two such
  strings for equality, so the day number stands for the string.\<close>

definition toDateString :: "instant \<Rightarrow> int" where
  "toDateString t = t div 86400000"

section \<open>Storage\<close>

text \<open>
  The two collections kept in \<^verbatim>\<open>localStorage\<close> under \<^verbatim>\<open>smart_medicine_boxes\<close> and
  \<^verbatim>\<open>smart_medicine_alerts\<close>, the trace of \<^verbatim>\<open>saveToStorage\<close> calls, and the number of
  \<^verbatim>\<open>Math.random()\<close> calls made so far. \<^verbatim>\<open>getMedicineBoxesFromStorage\<close> and
  \<^verbatim>\<open>getAlertsFromStorage\<close> read the collections back as they were written, and a write
  succeeds.
\<close>

datatype storage_key = MEDICINE_BOXES | ALERTS | INITIALIZED

record world =
  smart_medicine_boxes :: "MedicineBox list"
  smart_medicine_alerts :: "Alert list"
  saveToStorage_log :: "storage_key list"
  random_calls :: nat

text \<open>The mutable locals of one engine run: the \<^verbatim>\<open>alerts\<close> array read from storage, the
  \<^verbatim>\<open>newAlerts\<close> array, and the random-number calls made.\<close>

record tick =
  alerts :: "Alert list"
  newAlerts :: "Alert list"
  calls :: nat

text \<open>\<^verbatim>\<open>newAlerts.push(a); alerts.push(a)\<close>, where \<open>mk\<close> builds the alert from its fresh
  \<^verbatim>\<open>Math.random().toString(36).substr(2, 9)\<close> id; \<open>rnd n\<close> is the id the \<open>n\<close>-th call yields.\<close>

definition push_alert :: "(nat \<Rightarrow> jstring) \<Rightarrow> (jstring \<Rightarrow> Alert) \<Rightarrow> tick \<Rightarrow> tick" where
  "push_alert rnd mk t =
     t\<lparr>alerts := alerts t @ [mk (rnd (calls t))],
       newAlerts := newAlerts t @ [mk (rnd (calls t))],
       calls := Suc (calls t)\<rparr>"

section \<open>checkMedicineTimes\<close>

definition timeAlert :: "instant \<Rightarrow> MedicineBox \<Rightarrow> Medicine \<Rightarrow> jstring \<Rightarrow> jstring \<Rightarrow> Alert" where
  "timeAlert now box medicine tok i =
     \<lparr>id_alert = i, medicineId = id_med medicine, medicineName = name_med medicine,
      boxName = name_box box, type_alert = medicine_time,
      message = lit ''Time to take your '' @ name_med medicine @ lit '' ('' @ tok @ lit ''). '' @
        (case customMessage medicine of
           None \<Rightarrow> lit ''Take as prescribed.''
         | Some c \<Rightarrow> if c = [] then lit ''Take as prescribed.'' else c),
      isRead = False, createdAt_alert = now\<rparr>"

definition lowCountAlert :: "instant \<Rightarrow> MedicineBox \<Rightarrow> Medicine \<Rightarrow> jstring \<Rightarrow> Alert" where
  "lowCountAlert now box medicine i =
     \<lparr>id_alert = i, medicineId = id_med medicine, medicineName = name_med medicine,
      boxName = name_box box, type_alert = low_count,
      message = name_med medicine @ lit '' is running low ('' @ num_toString (currentCount medicine) @
        lit '' pills remaining). Time to refill!'',
      isRead = False, createdAt_alert = now\<rparr>"

definition outOfStockAlert :: "instant \<Rightarrow> MedicineBox \<Rightarrow> Medicine \<Rightarrow> jstring \<Rightarrow> Alert" where
  "outOfStockAlert now box medicine i =
     \<lparr>id_alert = i, medicineId = id_med medicine, medicineName = name_med medicine,
      boxName = name_box box, type_alert = out_of_stock,
      message = name_med medicine @ lit '' is out of stock! Please refill immediately.'',
      isRead = False, createdAt_alert = now\<rparr>"

definition existingTimeAlert :: "Alert list \<Rightarrow> jstring \<Rightarrow> jstring \<Rightarrow> int \<Rightarrow> Alert option" where
  "existingTimeAlert al mid tok currentDate =
     find (\<lambda>alert. medicineId alert = mid \<and> type_alert alert = medicine_time \<and>
                   toDateString (createdAt_alert alert) = currentDate \<and>
                   includes_str (message alert) tok) al"

definition existingLowAlert :: "Alert list \<Rightarrow> jstring \<Rightarrow> Alert option" where
  "existingLowAlert al mid =
     find (\<lambda>alert. medicineId alert = mid \<and> type_alert alert = low_count \<and> \<not> isRead alert) al"

text \<open>The block guarded by \<^verbatim>\<open>if (!existingTimeAlert)\<close>: deduct one dose and raise the alerts.\<close>

definition deduct ::
  "(nat \<Rightarrow> jstring) \<Rightarrow> instant \<Rightarrow> MedicineBox \<Rightarrow> jstring \<Rightarrow> Medicine \<Rightarrow> tick \<Rightarrow> Medicine \<times> tick"
where
  "deduct rnd now box tok medicine t =
     (let medicine1 = medicine\<lparr>currentCount := max 0 (currentCount medicine - 1),
                              updatedAt_med := now\<rparr>;
          t1 = push_alert rnd (timeAlert now box medicine1 tok) t;
          t2 = (if currentCount medicine1 \<le> 3 \<and> currentCount medicine1 > 0 then
                  (case existingLowAlert (alerts t1) (id_med medicine1) of
                     None \<Rightarrow> push_alert rnd (lowCountAlert now box medicine1) t1
                   | Some _ \<Rightarrow> t1)
                else t1);
          t3 = (if currentCount medicine1 = 0 then
                  push_alert rnd (outOfStockAlert now box medicine1) t2
                else t2)
      in (medicine1, t3))"

text \<open>The body of \<^verbatim>\<open>scheduleTimes.forEach\<close>: one schedule token of one medicine.\<close>

definition doseToken ::
  "(nat \<Rightarrow> jstring) \<Rightarrow> instant \<Rightarrow> MedicineBox \<Rightarrow> jstring \<Rightarrow> Medicine \<times> tick \<Rightarrow> Medicine \<times> tick"
where
  "doseToken rnd now box tok = (\<lambda>(medicine, t).
     if tok = toTimeString5 now \<and> currentCount medicine > 0 then
       (case existingTimeAlert (alerts t) (id_med medicine) tok (toDateString now) of
          Some _ \<Rightarrow> (medicine, t)
        | None \<Rightarrow> deduct rnd now box tok medicine t)
     else (medicine, t))"

text \<open>The body of \<^verbatim>\<open>box.medicines.forEach\<close>: the tokens are split off the schedule string
  once, then visited in order.\<close>

definition scheduleTimes :: "Medicine \<Rightarrow> jstring list" where
  "scheduleTimes medicine = map trim (split_comma (scheduleTime medicine))"

definition doseMedicine ::
  "(nat \<Rightarrow> jstring) \<Rightarrow> instant \<Rightarrow> MedicineBox \<Rightarrow> Medicine \<Rightarrow> tick \<Rightarrow> Medicine \<times> tick"
where
  "doseMedicine rnd now box medicine t =
     fold (doseToken rnd now box) (scheduleTimes medicine) (medicine, t)"

fun doseMedicines ::
  "(nat \<Rightarrow> jstring) \<Rightarrow> instant \<Rightarrow> MedicineBox \<Rightarrow> Medicine list \<Rightarrow> tick \<Rightarrow> Medicine list \<times> tick"
where
  "doseMedicines rnd now box [] t = ([], t)"
| "doseMedicines rnd now box (m # ms) t =
     (case doseMedicine rnd now box m t of
        (m', t') \<Rightarrow> (case doseMedicines rnd now box ms t' of
                      (ms', t'') \<Rightarrow> (m' # ms', t'')))"

text \<open>\<^verbatim>\<open>boxes.forEach\<close>: the medicines are updated in place inside their box.\<close>

fun doseBoxes ::
  "(nat \<Rightarrow> jstring) \<Rightarrow> instant \<Rightarrow> MedicineBox list \<Rightarrow> tick \<Rightarrow> MedicineBox list \<times> tick"
where
  "doseBoxes rnd now [] t = ([], t)"
| "doseBoxes rnd now (box # bs) t =
     (case doseMedicines rnd now box (medicines box) t of
        (ms', t') \<Rightarrow> (case doseBoxes rnd now bs t' of
                      (bs', t'') \<Rightarrow> (box\<lparr>medicines := ms'\<rparr> # bs', t'')))"

definition checkMedicineTimes :: "(nat \<Rightarrow> jstring) \<Rightarrow> instant \<Rightarrow> world \<Rightarrow> Alert list \<times> world" where
  "checkMedicineTimes rnd now w =
     (case doseBoxes rnd now (smart_medicine_boxes w)
             \<lparr>alerts = smart_medicine_alerts w, newAlerts = [], calls = random_calls w\<rparr> of
        (boxes', t) \<Rightarrow>
          (newAlerts t,
           w\<lparr>smart_medicine_boxes := boxes',
             smart_medicine_alerts := alerts t,
             saveToStorage_log := saveToStorage_log w @ [MEDICINE_BOXES, ALERTS],
             random_calls := calls t\<rparr>))"

section \<open>checkLowMedicines\<close>

text \<open>
  \<^verbatim>\<open>daysRemaining = medicine.currentCount / medicine.timesPerDay\<close> is a quotient of two integers.
  With a zero divisor JavaScript yields an infinity or NaN, for which the test
  \<^verbatim>\<open>daysRemaining <= 3 && daysRemaining > 0\<close> is false.
\<close>

definition daysRemaining :: "Medicine \<Rightarrow> real option" where
  "daysRemaining medicine =
     (if timesPerDay medicine = 0 then None
      else Some (real_of_int (currentCount medicine) / real_of_int (timesPerDay medicine)))"

definition lowStock :: "Medicine \<Rightarrow> bool" where
  "lowStock medicine =
     (case daysRemaining medicine of None \<Rightarrow> False | Some d \<Rightarrow> d \<le> 3 \<and> d > 0)"

definition existingAlert :: "Alert list \<Rightarrow> jstring \<Rightarrow> Alert option" where
  "existingAlert al mid =
     find (\<lambda>alert. medicineId alert = mid \<and> type_alert alert = low_count) al"

text \<open>The body of \<^verbatim>\<open>box.medicines.forEach\<close> in the low-stock check.\<close>

definition lowMedicine ::
  "(nat \<Rightarrow> jstring) \<Rightarrow> instant \<Rightarrow> MedicineBox \<Rightarrow> Medicine \<Rightarrow> tick \<Rightarrow> tick"
where
  "lowMedicine rnd now box medicine t =
     (if lowStock medicine then
        (case existingAlert (alerts t) (id_med medicine) of
           None \<Rightarrow> push_alert rnd (lowCountAlert now box medicine) t
         | Some _ \<Rightarrow> t)
      else t)"

definition lowBoxes :: "(nat \<Rightarrow> jstring) \<Rightarrow> instant \<Rightarrow> MedicineBox list \<Rightarrow> tick \<Rightarrow> tick" where
  "lowBoxes rnd now bs t = fold (\<lambda>box. fold (lowMedicine rnd now box) (medicines box)) bs t"

definition checkLowMedicines :: "(nat \<Rightarrow> jstring) \<Rightarrow> instant \<Rightarrow> world \<Rightarrow> Alert list \<times> world" where
  "checkLowMedicines rnd now w =
     (let t = lowBoxes rnd now (smart_medicine_boxes w)
                \<lparr>alerts = smart_medicine_alerts w, newAlerts = [], calls = random_calls w\<rparr>
      in (newAlerts t,
          w\<lparr>smart_medicine_alerts := alerts t,
            saveToStorage_log := saveToStorage_log w @ [ALERTS],
            random_calls := calls t\<rparr>))"

section \<open>Alert operations\<close>

definition getAlerts :: "instant \<Rightarrow> world \<Rightarrow> Alert list \<times> world" where
  "getAlerts now w =
     (let oneDayAgo = now - 24 * 60 * 60 * 1000;
          recentAlerts = filter (\<lambda>alert. createdAt_alert alert > oneDayAgo) (smart_medicine_alerts w)
      in (recentAlerts,
          if length recentAlerts \<noteq> length (smart_medicine_alerts w) then
            w\<lparr>smart_medicine_alerts := recentAlerts,
              saveToStorage_log := saveToStorage_log w @ [ALERTS]\<rparr>
          else w))"

text \<open>\<^verbatim>\<open>alert.isRead = true\<close> on the element \<^verbatim>\<open>alerts.find\<close> returned: the first match,
  updated in place.\<close>

fun set_isRead :: "jstring \<Rightarrow> Alert list \<Rightarrow> Alert list" where
  "set_isRead alertId [] = []"
| "set_isRead alertId (a # al) =
     (if id_alert a = alertId then a\<lparr>isRead := True\<rparr> # al else a # set_isRead alertId al)"

definition markAlertAsRead :: "jstring \<Rightarrow> world \<Rightarrow> world" where
  "markAlertAsRead alertId w =
     (case find (\<lambda>a. id_alert a = alertId) (smart_medicine_alerts w) of
        Some _ \<Rightarrow>
          w\<lparr>smart_medicine_alerts :=
              filter (\<lambda>a. \<not> isRead a) (set_isRead alertId (smart_medicine_alerts w)),
            saveToStorage_log := saveToStorage_log w @ [ALERTS]\<rparr>
      | None \<Rightarrow> w)"

definition markAllAlertsAsRead :: "world \<Rightarrow> world" where
  "markAllAlertsAsRead w =
     w\<lparr>smart_medicine_alerts := map (\<lambda>alert. alert\<lparr>isRead := True\<rparr>) (smart_medicine_alerts w),
       saveToStorage_log := saveToStorage_log w @ [ALERTS]\<rparr>"

definition deleteAlert :: "jstring \<Rightarrow> world \<Rightarrow> world" where
  "deleteAlert alertId w =
     w\<lparr>smart_medicine_alerts := filter (\<lambda>alert. id_alert alert \<noteq> alertId) (smart_medicine_alerts w),
       saveToStorage_log := saveToStorage_log w @ [ALERTS]\<rparr>"

section \<open>Box and medicine operations\<close>

text \<open>
  An \<^verbatim>\<open>async\<close> method that throws returns a rejected promise: the result is \<open>Inl\<close> of the
  error, paired with the storage as the call left it.
\<close>

datatype error = Medicine_box_not_found | Medicine_not_found

text \<open>\<^verbatim>\<open>Array.prototype.findIndex\<close>, with \<open>None\<close> for \<^verbatim>\<open>-1\<close>.\<close>

fun findIndex :: "('a \<Rightarrow> bool) \<Rightarrow> 'a list \<Rightarrow> nat option" where
  "findIndex P [] = None"
| "findIndex P (x # xs) =
     (if P x then Some 0 else (case findIndex P xs of None \<Rightarrow> None | Some i \<Rightarrow> Some (Suc i)))"

text \<open>\<^verbatim>\<open>Partial<MedicineBox>\<close> and \<^verbatim>\<open>Partial<Medicine>\<close>: each field present or absent; the
  spread \<^verbatim>\<open>{...x, ...updates}\<close> overwrites the fields that are present.\<close>

record MedicineBox_updates =
  u_id_box :: "jstring option"
  u_name_box :: "jstring option"
  u_boxId :: "jstring option"
  u_ipAddress :: "jstring option"
  u_userId :: "jstring option"
  u_medicines :: "Medicine list option"
  u_isConnected :: "bool option"
  u_lastSyncAt :: "instant option option"
  u_createdAt_box :: "instant option"
  u_updatedAt_box :: "instant option"

definition over :: "'a \<Rightarrow> 'a option \<Rightarrow> 'a" where
  "over x u = (case u of None \<Rightarrow> x | Some y \<Rightarrow> y)"

definition spread_box :: "MedicineBox \<Rightarrow> MedicineBox_updates \<Rightarrow> MedicineBox" where
  "spread_box b u =
     \<lparr>id_box = over (id_box b) (u_id_box u), name_box = over (name_box b) (u_name_box u),
      boxId = over (boxId b) (u_boxId u), ipAddress = over (ipAddress b) (u_ipAddress u),
      userId = over (userId b) (u_userId u), medicines = over (medicines b) (u_medicines u),
      isConnected = over (isConnected b) (u_isConnected u),
      lastSyncAt = over (lastSyncAt b) (u_lastSyncAt u),
      createdAt_box = over (createdAt_box b) (u_createdAt_box u),
      updatedAt_box = over (updatedAt_box b) (u_updatedAt_box u)\<rparr>"

record Medicine_updates =
  u_id_med :: "jstring option"
  u_name_med :: "jstring option"
  u_timesPerDay :: "int option"
  u_totalCount :: "int option"
  u_currentCount :: "int option"
  u_customMessage :: "jstring option option"
  u_scheduleTime :: "jstring option"
  u_createdAt_med :: "instant option"
  u_updatedAt_med :: "instant option"

definition spread_med :: "Medicine \<Rightarrow> Medicine_updates \<Rightarrow> Medicine" where
  "spread_med m u =
     \<lparr>id_med = over (id_med m) (u_id_med u), name_med = over (name_med m) (u_name_med u),
      timesPerDay = over (timesPerDay m) (u_timesPerDay u),
      totalCount = over (totalCount m) (u_totalCount u),
      currentCount = over (currentCount m) (u_currentCount u),
      customMessage = over (customMessage m) (u_customMessage u),
      scheduleTime = over (scheduleTime m) (u_scheduleTime u),
      createdAt_med = over (createdAt_med m) (u_createdAt_med u),
      updatedAt_med = over (updatedAt_med m) (u_updatedAt_med u)\<rparr>"

definition updateMedicineBox ::
  "jstring \<Rightarrow> MedicineBox_updates \<Rightarrow> instant \<Rightarrow> world \<Rightarrow> (error + MedicineBox) \<times> world"
where
  "updateMedicineBox i updates now w =
     (let boxes = smart_medicine_boxes w in
      case findIndex (\<lambda>box. id_box box = i) boxes of
        None \<Rightarrow> (Inl Medicine_box_not_found, w)
      | Some index \<Rightarrow>
          let b = (spread_box (boxes ! index) updates)\<lparr>updatedAt_box := now\<rparr> in
          (Inr b,
           w\<lparr>smart_medicine_boxes := boxes[index := b],
             saveToStorage_log := saveToStorage_log w @ [MEDICINE_BOXES]\<rparr>))"

text \<open>\<^verbatim>\<open>deleteMedicineBox\<close> warns on the console and returns when the box is not found; it
  never throws.\<close>

definition deleteMedicineBox :: "jstring \<Rightarrow> world \<Rightarrow> (error + unit) \<times> world" where
  "deleteMedicineBox i w =
     (let boxes = smart_medicine_boxes w in
      case find (\<lambda>box. id_box box = i) boxes of
        None \<Rightarrow> (Inr (), w)
      | Some boxToDelete \<Rightarrow>
          (Inr (),
           w\<lparr>smart_medicine_boxes := filter (\<lambda>box. id_box box \<noteq> i) boxes,
             smart_medicine_alerts :=
               filter (\<lambda>alert. \<not> (boxName alert = name_box boxToDelete \<or>
                                    list_ex (\<lambda>med. id_med med = medicineId alert)
                                      (medicines boxToDelete)))
                 (smart_medicine_alerts w),
             saveToStorage_log := saveToStorage_log w @ [MEDICINE_BOXES, ALERTS]\<rparr>))"

text \<open>\<^verbatim>\<open>Omit<Medicine, 'id' | 'createdAt' | 'updatedAt'>\<close>.\<close>

record MedicineData =
  d_name :: jstring
  d_timesPerDay :: int
  d_totalCount :: int
  d_currentCount :: int
  d_customMessage :: "jstring option"
  d_scheduleTime :: jstring

definition addMedicine ::
  "(nat \<Rightarrow> jstring) \<Rightarrow> jstring \<Rightarrow> MedicineData \<Rightarrow> instant \<Rightarrow> world \<Rightarrow> (error + Medicine) \<times> world"
where
  "addMedicine rnd bid medicineData now w =
     (let boxes = smart_medicine_boxes w;
          newMedicine = \<lparr>id_med = rnd (random_calls w), name_med = d_name medicineData,
             timesPerDay = d_timesPerDay medicineData, totalCount = d_totalCount medicineData,
             currentCount = d_currentCount medicineData,
             customMessage = d_customMessage medicineData,
             scheduleTime = d_scheduleTime medicineData,
             createdAt_med = now, updatedAt_med = now\<rparr>;
          w1 = w\<lparr>random_calls := Suc (random_calls w)\<rparr>
      in case findIndex (\<lambda>box. id_box box = bid) boxes of
        None \<Rightarrow> (Inl Medicine_box_not_found, w1)
      | Some boxIndex \<Rightarrow>
          let box = boxes ! boxIndex;
              box1 = box\<lparr>medicines := medicines box @ [newMedicine], updatedAt_box := now\<rparr>;
              t = \<lparr>alerts = smart_medicine_alerts w, newAlerts = [], calls = random_calls w1\<rparr>;
              t1 = (if currentCount newMedicine \<le> 3 \<and> currentCount newMedicine > 0 then
                      (case existingLowAlert (alerts t) (id_med newMedicine) of
                         None \<Rightarrow> push_alert rnd (lowCountAlert now box1 newMedicine) t
                       | Some _ \<Rightarrow> t)
                    else t)
          in (Inr newMedicine,
              w\<lparr>smart_medicine_boxes := boxes[boxIndex := box1],
                smart_medicine_alerts := alerts t1,
                saveToStorage_log := saveToStorage_log w @ [MEDICINE_BOXES, ALERTS],
                random_calls := calls t1\<rparr>))"

definition updateMedicine ::
  "jstring \<Rightarrow> jstring \<Rightarrow> Medicine_updates \<Rightarrow> instant \<Rightarrow> world \<Rightarrow> (error + Medicine) \<times> world"
where
  "updateMedicine bid mid updates now w =
     (let boxes = smart_medicine_boxes w in
      case findIndex (\<lambda>box. id_box box = bid) boxes of
        None \<Rightarrow> (Inl Medicine_box_not_found, w)
      | Some boxIndex \<Rightarrow>
          (case findIndex (\<lambda>med. id_med med = mid) (medicines (boxes ! boxIndex)) of
             None \<Rightarrow> (Inl Medicine_not_found, w)
           | Some medicineIndex \<Rightarrow>
               let box = boxes ! boxIndex;
                   m = (spread_med (medicines box ! medicineIndex) updates)\<lparr>updatedAt_med := now\<rparr>
               in (Inr m,
                   w\<lparr>smart_medicine_boxes :=
                       boxes[boxIndex := box\<lparr>medicines := (medicines box)[medicineIndex := m],
                                               updatedAt_box := now\<rparr>],
                     saveToStorage_log := saveToStorage_log w @ [MEDICINE_BOXES]\<rparr>)))"

definition deleteMedicine :: "jstring \<Rightarrow> jstring \<Rightarrow> instant \<Rightarrow> world \<Rightarrow> (error + unit) \<times> world" where
  "deleteMedicine bid mid now w =
     (let boxes = smart_medicine_boxes w in
      case findIndex (\<lambda>box. id_box box = bid) boxes of
        None \<Rightarrow> (Inl Medicine_box_not_found, w)
      | Some boxIndex \<Rightarrow>
          let box = boxes ! boxIndex in
          (Inr (),
           w\<lparr>smart_medicine_boxes :=
               boxes[boxIndex := box\<lparr>medicines := filter (\<lambda>med. id_med med \<noteq> mid) (medicines box),
                                       updatedAt_box := now\<rparr>],
             smart_medicine_alerts :=
               filter (\<lambda>alert. medicineId alert \<noteq> mid) (smart_medicine_alerts w),
             saveToStorage_log := saveToStorage_log w @ [MEDICINE_BOXES, ALERTS]\<rparr>))"

section \<open>ESP32Service.disconnect\<close>

text \<open>What \<^verbatim>\<open>await fetch(...)\<close> with a five-second abort signal can do: resolve to a response
  with a status code, or throw (network failure, or the abort at the timeout).\<close>

datatype fetch_outcome = Response nat | NetworkError | Timeout

definition ok :: "nat \<Rightarrow> bool" where
  "ok status = (200 \<le> status \<and> status \<le> 299)"

record reply =
  success :: bool
  message_reply :: jstring

definition disconnect :: "fetch_outcome \<Rightarrow> reply" where
  "disconnect r =
     (case r of
        Response status \<Rightarrow>
          \<lparr>success = ok status,
           message_reply = (if ok status then lit ''Disconnected successfully''
                            else lit ''Disconnect signal failed'')\<rparr>
      | NetworkError \<Rightarrow> \<lparr>success = True, message_reply = lit ''Disconnected (device unreachable)''\<rparr>
      | Timeout \<Rightarrow> \<lparr>success = True, message_reply = lit ''Disconnected (device unreachable)''\<rparr>)"

section \<open>Notions used in the statements and proofs\<close>

text \<open>A run only appends to its two arrays; \<open>grows P t t'\<close> says that \<open>t'\<close> extends \<open>t\<close> by
  the same alerts in both arrays, each satisfying \<open>P\<close>.\<close>

definition grows :: "(Alert \<Rightarrow> bool) \<Rightarrow> tick \<Rightarrow> tick \<Rightarrow> bool" where
  "grows P t t' \<longleftrightarrow>
     (\<exists>new. alerts t' = alerts t @ new \<and> newAlerts t' = newAlerts t @ new \<and> (\<forall>a \<in> set new. P a))"

text \<open>The guard under which a medicine is deducted when its tokens \<open>toks\<close> are visited with the
  alerts \<open>al\<close>.\<close>

definition due :: "instant \<Rightarrow> Alert list \<Rightarrow> Medicine \<Rightarrow> jstring list \<Rightarrow> bool" where
  "due now al m toks \<longleftrightarrow>
     currentCount m > 0 \<and> toTimeString5 now \<in> set toks \<and>
     existingTimeAlert al (id_med m) (toTimeString5 now) (toDateString now) = None"

text \<open>Medicine \<open>j\<close> of box \<open>i\<close> in the stored boxes, and the statement that no other stored
  medicine carries its id.\<close>

abbreviation medicineAt :: "world \<Rightarrow> nat \<Rightarrow> nat \<Rightarrow> Medicine" where
  "medicineAt w i j \<equiv> medicines (smart_medicine_boxes w ! i) ! j"

abbreviation soleId :: "world \<Rightarrow> nat \<Rightarrow> nat \<Rightarrow> bool" where
  "soleId w i j \<equiv>
     \<forall>i' j'. i' < length (smart_medicine_boxes w) \<and>
       j' < length (medicines (smart_medicine_boxes w ! i')) \<and> (i', j') \<noteq> (i, j) \<longrightarrow>
       id_med (medicines (smart_medicine_boxes w ! i') ! j') \<noteq>
         id_med (medicines (smart_medicine_boxes w ! i) ! j)"

text \<open>The boxes and medicines that \<^verbatim>\<open>forEach\<close> has been through when it reaches medicine \<open>j\<close>
  of box \<open>i\<close>, and the \<^verbatim>\<open>alerts\<close> array of a run of \<^verbatim>\<open>checkMedicineTimes\<close> at that moment:
  the stored alerts followed by those the run has raised so far.\<close>

definition visitedBefore :: "MedicineBox list \<Rightarrow> nat \<Rightarrow> nat \<Rightarrow> MedicineBox list" where
  "visitedBefore bs i j = take i bs @ [(bs ! i)\<lparr>medicines := take j (medicines (bs ! i))\<rparr>]"

definition alertsBefore :: "(nat \<Rightarrow> jstring) \<Rightarrow> instant \<Rightarrow> world \<Rightarrow> nat \<Rightarrow> nat \<Rightarrow> Alert list" where
  "alertsBefore rnd now w i j =
     smart_medicine_alerts (snd (checkMedicineTimes rnd now
       (w\<lparr>smart_medicine_boxes := visitedBefore (smart_medicine_boxes w) i j\<rparr>)))"

text \<open>Some alert in \<open>al\<close> is a \<open>low_count\<close> alert for the medicine id \<open>x\<close>.\<close>

definition lowFor :: "jstring \<Rightarrow> Alert list \<Rightarrow> bool" where
  "lowFor x al \<longleftrightarrow> (\<exists>a \<in> set al. medicineId a = x \<and> type_alert a = low_count)"

section \<open>Example data\<close>

definition ex_medicine :: "string \<Rightarrow> int \<Rightarrow> Medicine" where
  "ex_medicine i c =
     \<lparr>id_med = lit i, name_med = lit ''Vitamin D'', timesPerDay = 1, totalCount = 30, currentCount = c,
      customMessage = Some (lit ''Take with breakfast''), scheduleTime = lit ''08:00'',
      createdAt_med = 0, updatedAt_med = 0\<rparr>"

definition ex_box :: "Medicine list \<Rightarrow> MedicineBox" where
  "ex_box ms =
     \<lparr>id_box = lit ''b1'', name_box = lit ''Kitchen'', boxId = lit ''ESP32_001'', ipAddress = lit ''192.168.1.101'',
      userId = lit ''1'', medicines = ms, isConnected = True, lastSyncAt = None,
      createdAt_box = 0, updatedAt_box = 0\<rparr>"

definition ex_alert :: "string \<Rightarrow> string \<Rightarrow> bool \<Rightarrow> instant \<Rightarrow> Alert" where
  "ex_alert i mid r c =
     \<lparr>id_alert = lit i, medicineId = lit mid, medicineName = lit ''Vitamin D'', boxName = lit ''Hall'',
      type_alert = low_count, message = lit ''Vitamin D is running low'', isRead = r,
      createdAt_alert = c\<rparr>"

definition ex_world :: "Medicine list \<Rightarrow> Alert list \<Rightarrow> world" where
  "ex_world ms al =
     \<lparr>smart_medicine_boxes = [ex_box ms], smart_medicine_alerts = al,
      saveToStorage_log = [], random_calls = 0\<rparr>"

definition ex_box_updates :: MedicineBox_updates where
  "ex_box_updates =
     \<lparr>u_id_box = None, u_name_box = None, u_boxId = None, u_ipAddress = None, u_userId = None,
      u_medicines = None, u_isConnected = Some False, u_lastSyncAt = None,
      u_createdAt_box = None, u_updatedAt_box = None\<rparr>"

definition ex_med_updates :: Medicine_updates where
  "ex_med_updates =
     \<lparr>u_id_med = None, u_name_med = None, u_timesPerDay = None, u_totalCount = None,
      u_currentCount = Some 30, u_customMessage = None, u_scheduleTime = None,
      u_createdAt_med = None, u_updatedAt_med = None\<rparr>"

definition ex_data :: MedicineData where
  "ex_data =
     \<lparr>d_name = lit ''Melatonin'', d_timesPerDay = 1, d_totalCount = 30, d_currentCount = 20,
      d_customMessage = None, d_scheduleTime = lit ''22:00''\<rparr>"

definition eight_am :: instant where
  "eight_am = 8 * 60 * 60 * 1000"

definition eight_pm :: instant where
  "eight_pm = 20 * 60 * 60 * 1000"

text \<open>A medicine taken twice a day whose reminder text names both times, and the storage after
  the run at 08:00 has deducted its morning dose.\<close>

definition ex_twice :: "int \<Rightarrow> Medicine" where
  "ex_twice c =
     \<lparr>id_med = lit ''m1'', name_med = lit ''Vitamin D'', timesPerDay = 2, totalCount = 30,
      currentCount = c, customMessage = Some (lit ''Take at 08:00 and 20:00''),
      scheduleTime = lit ''08:00,20:00'', createdAt_med = 0, updatedAt_med = 0\<rparr>"

definition ex_morning :: world where
  "ex_morning = snd (checkMedicineTimes digits eight_am (ex_world [ex_twice 10] []))"

section \<open>Properties\<close>

text \<open>Facts about the example data.\<close>

lemmas ex_defs = ex_world_def ex_box_def ex_medicine_def ex_alert_def eight_am_def lit_def

lemma eight_am_token: "toTimeString5 eight_am \<in> set (scheduleTimes (ex_medicine i c))"
  by (simp add: ex_defs scheduleTimes_def trim_def is_space_def toTimeString5_def two_digits_def
        digit_char_def)

lemma ex_unique: "soleId (ex_world [ex_medicine ''m1'' c, ex_medicine ''m2'' d] al) 0 0"
  by (auto simp: ex_defs less_Suc_eq)

lemma ex_unique2: "soleId (ex_world [ex_medicine ''m1'' c, ex_medicine ''m2'' d] al) 0 1"
  by (auto simp: ex_defs less_Suc_eq)

lemma grows_refl: "grows P t t"
  by (simp add: grows_def)

lemma grows_trans: "grows P t t' \<Longrightarrow> grows P t' t'' \<Longrightarrow> grows P t t''"
proof -
  assume "grows P t t'" and "grows P t' t''"
  then obtain new new' where "alerts t' = alerts t @ new" "newAlerts t' = newAlerts t @ new"
      "\<forall>a \<in> set new. P a" "alerts t'' = alerts t' @ new'" "newAlerts t'' = newAlerts t' @ new'"
      "\<forall>a \<in> set new'. P a"
    unfolding grows_def by blast
  then have "alerts t'' = alerts t @ (new @ new') \<and> newAlerts t'' = newAlerts t @ (new @ new') \<and>
      (\<forall>a \<in> set (new @ new'). P a)"
    by auto
  then show ?thesis
    unfolding grows_def by blast
qed

lemma grows_mono: "grows P t t' \<Longrightarrow> (\<And>a. P a \<Longrightarrow> Q a) \<Longrightarrow> grows Q t t'"
  unfolding grows_def by blast

lemma grows_push: "P (mk (rnd (calls t))) \<Longrightarrow> grows P t (push_alert rnd mk t)"
  by (simp add: grows_def push_alert_def)

lemma includes_timeAlert: "includes_str (message (timeAlert now box m tok i)) tok"
proof -
  have "sublist tok (((lit ''Time to take your '') @ name_med m @ (lit '' ('')) @ tok @ ((lit ''). '') @
        (case customMessage m of
           None \<Rightarrow> (lit ''Take as prescribed.'')
         | Some c \<Rightarrow> if c = [] then (lit ''Take as prescribed.'') else c)))"
    by (rule sublist_appendI)
  then show ?thesis
    by (simp add: includes_str_def timeAlert_def)
qed

lemma timeAlert_fields:
  "medicineId (timeAlert now box m tok i) = id_med m"
  "type_alert (timeAlert now box m tok i) = medicine_time"
  "createdAt_alert (timeAlert now box m tok i) = now"
  "isRead (timeAlert now box m tok i) = False"
  by (simp_all add: timeAlert_def)

lemma lowCountAlert_fields:
  "medicineId (lowCountAlert now box m i) = id_med m"
  "type_alert (lowCountAlert now box m i) = low_count"
  by (simp_all add: lowCountAlert_def)

lemma outOfStockAlert_fields:
  "medicineId (outOfStockAlert now box m i) = id_med m"
  "type_alert (outOfStockAlert now box m i) = out_of_stock"
  by (simp_all add: outOfStockAlert_def)

lemma deduct_fst:
  "fst (deduct rnd now box tok m t) =
     m\<lparr>currentCount := max 0 (currentCount m - 1), updatedAt_med := now\<rparr>"
  by (simp add: deduct_def Let_def)

lemma deduct_grows: "grows (\<lambda>a. medicineId a = id_med m) t (snd (deduct rnd now box tok m t))"
proof -
  let ?m1 = "m\<lparr>currentCount := max 0 (currentCount m - 1), updatedAt_med := now\<rparr>"
  let ?P = "\<lambda>a. medicineId a = id_med m"
  let ?t1 = "push_alert rnd (timeAlert now box ?m1 tok) t"
  let ?t2 = "(if currentCount ?m1 \<le> 3 \<and> currentCount ?m1 > 0 then
                  (case existingLowAlert (alerts ?t1) (id_med ?m1) of
                     None \<Rightarrow> push_alert rnd (lowCountAlert now box ?m1) ?t1
                   | Some _ \<Rightarrow> ?t1)
                else ?t1)"
  let ?t3 = "(if currentCount ?m1 = 0 then
                  push_alert rnd (outOfStockAlert now box ?m1) ?t2
                else ?t2)"
  have g1: "grows ?P t ?t1"
    by (rule grows_push) (simp add: timeAlert_fields)
  have g2: "grows ?P ?t1 ?t2"
    by (auto split: option.splits intro!: grows_push grows_refl simp: lowCountAlert_fields)
  have g3: "grows ?P ?t2 ?t3"
    by (auto intro!: grows_push grows_refl simp: outOfStockAlert_fields)
  have "snd (deduct rnd now box tok m t) = ?t3"
    by (simp add: deduct_def Let_def)
  with grows_trans [OF grows_trans [OF g1 g2] g3] show ?thesis by simp
qed

lemma deduct_blocks:
  "existingTimeAlert (alerts (snd (deduct rnd now box tok m t))) (id_med m) tok (toDateString now)
     \<noteq> None"
proof -
  let ?m1 = "m\<lparr>currentCount := max 0 (currentCount m - 1), updatedAt_med := now\<rparr>"
  let ?a = "timeAlert now box ?m1 tok (rnd (calls t))"
  have "grows (\<lambda>a. True) (push_alert rnd (timeAlert now box ?m1 tok) t) (snd (deduct rnd now box tok m t))"
    by (auto simp: deduct_def Let_def split: option.splits intro!: grows_refl grows_push
          intro: grows_trans [OF grows_push grows_push])
  then have "?a \<in> set (alerts (snd (deduct rnd now box tok m t)))"
    by (auto simp: grows_def push_alert_def)
  moreover have "medicineId ?a = id_med m \<and> type_alert ?a = medicine_time \<and>
      toDateString (createdAt_alert ?a) = toDateString now \<and> includes_str (message ?a) tok"
    by (simp add: timeAlert_fields includes_timeAlert)
  ultimately show ?thesis
    unfolding existingTimeAlert_def find_None_iff by blast
qed

lemma doseToken_idle:
  "\<not> due now (alerts t) m (tok # toks) \<Longrightarrow> doseToken rnd now box tok (m, t) = (m, t)"
  by (auto simp: doseToken_def due_def split: option.splits)

lemma doseToken_other:
  "tok \<noteq> toTimeString5 now \<Longrightarrow> doseToken rnd now box tok (m, t) = (m, t)"
  by (simp add: doseToken_def)

lemma doseToken_fire:
  "due now (alerts t) m [tok] \<Longrightarrow> doseToken rnd now box tok (m, t) = deduct rnd now box tok m t"
  by (auto simp: doseToken_def due_def)

lemma fold_doseToken_idle:
  "\<not> due now (alerts t) m toks \<Longrightarrow> fold (doseToken rnd now box) toks (m, t) = (m, t)"
proof (induction toks)
  case Nil
  then show ?case by simp
next
  case (Cons tok toks)
  from Cons.prems have 1: "doseToken rnd now box tok (m, t) = (m, t)"
    by (rule doseToken_idle)
  from Cons.prems have "\<not> due now (alerts t) m toks"
    by (auto simp: due_def)
  with Cons.IH 1 show ?case by simp
qed

lemma fold_doseToken_fire:
  "due now (alerts t) m toks \<Longrightarrow>
   fold (doseToken rnd now box) toks (m, t) = deduct rnd now box (toTimeString5 now) m t"
proof (induction toks)
  case Nil
  then show ?case by (simp add: due_def)
next
  case (Cons tok toks)
  show ?case
  proof (cases "tok = toTimeString5 now")
    case True
    with Cons.prems have "due now (alerts t) m [tok]"
      by (simp add: due_def)
    then have step: "doseToken rnd now box tok (m, t) = deduct rnd now box tok m t"
      by (rule doseToken_fire)
    obtain m1 t1 where d: "deduct rnd now box tok m t = (m1, t1)"
      by (cases "deduct rnd now box tok m t")
    have "id_med m1 = id_med m"
      using deduct_fst [of rnd now box tok m t] d by simp
    moreover have "existingTimeAlert (alerts t1) (id_med m) tok (toDateString now) \<noteq> None"
      using deduct_blocks [of rnd now box tok m t] d by simp
    ultimately have "\<not> due now (alerts t1) m1 toks"
      using True by (simp add: due_def)
    then have "fold (doseToken rnd now box) toks (m1, t1) = (m1, t1)"
      by (rule fold_doseToken_idle)
    with step d True show ?thesis by simp
  next
    case False
    then have 1: "doseToken rnd now box tok (m, t) = (m, t)"
      by (rule doseToken_other)
    from False Cons.prems have "due now (alerts t) m toks"
      by (auto simp: due_def)
    with Cons.IH 1 show ?thesis by simp
  qed
qed

lemma doseMedicine_eq:
  "doseMedicine rnd now box m t =
     (if due now (alerts t) m (scheduleTimes m)
      then deduct rnd now box (toTimeString5 now) m t else (m, t))"
  by (simp add: doseMedicine_def fold_doseToken_fire fold_doseToken_idle)

lemma doseMedicine_grows:
  "grows (\<lambda>a. medicineId a = id_med m) t (snd (doseMedicine rnd now box m t))"
  by (simp add: doseMedicine_eq deduct_grows grows_refl)

lemma doseMedicine_count:
  "currentCount (fst (doseMedicine rnd now box m t)) =
     (if due now (alerts t) m (scheduleTimes m) then currentCount m - 1 else currentCount m)"
  by (auto simp: doseMedicine_eq deduct_fst due_def)

text \<open>Splitting the traversals at a position.\<close>

lemma doseMedicines_Cons:
  "doseMedicines rnd now box (m # ms) t =
     (fst (doseMedicine rnd now box m t) #
        fst (doseMedicines rnd now box ms (snd (doseMedicine rnd now box m t))),
      snd (doseMedicines rnd now box ms (snd (doseMedicine rnd now box m t))))"
  by (simp add: case_prod_beta)

lemma doseMedicines_length: "length (fst (doseMedicines rnd now box ms t)) = length ms"
  by (induction ms arbitrary: t) (simp_all add: doseMedicines_Cons del: doseMedicines.simps(2))

lemma doseMedicines_append:
  "doseMedicines rnd now box (xs @ ys) t =
     (fst (doseMedicines rnd now box xs t) @
        fst (doseMedicines rnd now box ys (snd (doseMedicines rnd now box xs t))),
      snd (doseMedicines rnd now box ys (snd (doseMedicines rnd now box xs t))))"
  by (induction xs arbitrary: t) (simp_all add: doseMedicines_Cons del: doseMedicines.simps(2))

lemma doseMedicines_grows:
  "(\<And>m. m \<in> set ms \<Longrightarrow> P (id_med m)) \<Longrightarrow>
   grows (\<lambda>a. P (medicineId a)) t (snd (doseMedicines rnd now box ms t))"
proof (induction ms arbitrary: t)
  case Nil
  then show ?case by (simp add: grows_refl)
next
  case (Cons m ms)
  let ?t' = "snd (doseMedicine rnd now box m t)"
  have "grows (\<lambda>a. medicineId a = id_med m) t ?t'"
    by (rule doseMedicine_grows)
  then have 1: "grows (\<lambda>a. P (medicineId a)) t ?t'"
    by (rule grows_mono) (use Cons.prems in auto)
  have 2: "grows (\<lambda>a. P (medicineId a)) ?t' (snd (doseMedicines rnd now box ms ?t'))"
    by (rule Cons.IH) (use Cons.prems in auto)
  from grows_trans [OF 1 2] show ?case
    by (simp add: doseMedicines_Cons del: doseMedicines.simps(2))
qed

lemma doseBoxes_Cons:
  "doseBoxes rnd now (b # bs) t =
     (b\<lparr>medicines := fst (doseMedicines rnd now b (medicines b) t)\<rparr> #
        fst (doseBoxes rnd now bs (snd (doseMedicines rnd now b (medicines b) t))),
      snd (doseBoxes rnd now bs (snd (doseMedicines rnd now b (medicines b) t))))"
  by (simp add: case_prod_beta)

lemma doseBoxes_length: "length (fst (doseBoxes rnd now bs t)) = length bs"
  by (induction bs arbitrary: t) (simp_all add: doseBoxes_Cons del: doseBoxes.simps(2))

lemma doseBoxes_append:
  "doseBoxes rnd now (xs @ ys) t =
     (fst (doseBoxes rnd now xs t) @ fst (doseBoxes rnd now ys (snd (doseBoxes rnd now xs t))),
      snd (doseBoxes rnd now ys (snd (doseBoxes rnd now xs t))))"
  by (induction xs arbitrary: t) (simp_all add: doseBoxes_Cons del: doseBoxes.simps(2))

lemma doseBoxes_grows:
  "(\<And>b m. b \<in> set bs \<Longrightarrow> m \<in> set (medicines b) \<Longrightarrow> P (id_med m)) \<Longrightarrow>
   grows (\<lambda>a. P (medicineId a)) t (snd (doseBoxes rnd now bs t))"
proof (induction bs arbitrary: t)
  case Nil
  then show ?case by (simp add: grows_refl)
next
  case (Cons b bs)
  let ?t' = "snd (doseMedicines rnd now b (medicines b) t)"
  have 1: "grows (\<lambda>a. P (medicineId a)) t ?t'"
    by (rule doseMedicines_grows) (use Cons.prems in auto)
  have 2: "grows (\<lambda>a. P (medicineId a)) ?t' (snd (doseBoxes rnd now bs ?t'))"
    by (rule Cons.IH) (use Cons.prems in auto)
  from grows_trans [OF 1 2] show ?case
    by (simp add: doseBoxes_Cons del: doseBoxes.simps(2))
qed

lemma doseMedicines_at:
  assumes j: "j < length ms"
    and others: "\<And>k. k < length ms \<Longrightarrow> k \<noteq> j \<Longrightarrow> P (id_med (ms ! k))"
  shows "\<exists>t1. grows (\<lambda>a. P (medicineId a)) t t1 \<and>
      fst (doseMedicines rnd now box ms t) ! j = fst (doseMedicine rnd now box (ms ! j) t1) \<and>
      grows (\<lambda>a. P (medicineId a)) (snd (doseMedicine rnd now box (ms ! j) t1))
        (snd (doseMedicines rnd now box ms t))"
proof -
  let ?xs = "take j ms" and ?ys = "drop (Suc j) ms"
  let ?t1 = "snd (doseMedicines rnd now box ?xs t)"
  have split: "ms = ?xs @ (ms ! j) # ?ys"
    using j by (rule id_take_nth_drop)
  have before: "P (id_med m)" if "m \<in> set ?xs" for m
  proof -
    from that obtain k where "k < length ?xs" "m = ?xs ! k"
      by (auto simp: in_set_conv_nth)
    with j others [of k] show ?thesis by simp
  qed
  have after: "P (id_med m)" if "m \<in> set ?ys" for m
  proof -
    from that obtain k where "k < length ?ys" "m = ?ys ! k"
      by (auto simp: in_set_conv_nth)
    with j others [of "Suc j + k"] show ?thesis by simp
  qed
  have len: "length (fst (doseMedicines rnd now box ?xs t)) = j"
    using j by (simp add: doseMedicines_length)
  have eq: "doseMedicines rnd now box ms t =
      (fst (doseMedicines rnd now box ?xs t) @
         fst (doseMedicine rnd now box (ms ! j) ?t1) #
         fst (doseMedicines rnd now box ?ys (snd (doseMedicine rnd now box (ms ! j) ?t1))),
       snd (doseMedicines rnd now box ?ys (snd (doseMedicine rnd now box (ms ! j) ?t1))))"
    by (subst split) (simp add: doseMedicines_append doseMedicines_Cons del: doseMedicines.simps(2))
  have g1: "grows (\<lambda>a. P (medicineId a)) t ?t1"
    by (rule doseMedicines_grows) (rule before)
  have nth: "fst (doseMedicines rnd now box ms t) ! j = fst (doseMedicine rnd now box (ms ! j) ?t1)"
    unfolding eq using len by (simp add: nth_append)
  have g2: "grows (\<lambda>a. P (medicineId a)) (snd (doseMedicine rnd now box (ms ! j) ?t1))
        (snd (doseMedicines rnd now box ms t))"
    unfolding eq by simp (rule doseMedicines_grows, rule after)
  from g1 nth g2 show ?thesis by blast
qed

lemma doseBoxes_at:
  assumes i: "i < length bs" and j: "j < length (medicines (bs ! i))"
    and others: "\<And>i' j'. i' < length bs \<Longrightarrow> j' < length (medicines (bs ! i')) \<Longrightarrow>
                   (i', j') \<noteq> (i, j) \<Longrightarrow> P (id_med (medicines (bs ! i') ! j'))"
  shows "\<exists>t1. grows (\<lambda>a. P (medicineId a)) t t1 \<and>
      medicines (fst (doseBoxes rnd now bs t) ! i) ! j =
        fst (doseMedicine rnd now (bs ! i) (medicines (bs ! i) ! j) t1) \<and>
      grows (\<lambda>a. P (medicineId a)) (snd (doseMedicine rnd now (bs ! i) (medicines (bs ! i) ! j) t1))
        (snd (doseBoxes rnd now bs t))"
proof -
  let ?xs = "take i bs" and ?ys = "drop (Suc i) bs" and ?b = "bs ! i"
  let ?t0 = "snd (doseBoxes rnd now ?xs t)"
  let ?G = "grows (\<lambda>a. P (medicineId a))"
  have split: "bs = ?xs @ ?b # ?ys"
    using i by (rule id_take_nth_drop)
  have before: "P (id_med m)" if "b \<in> set ?xs" "m \<in> set (medicines b)" for b m
  proof -
    from that obtain k l where "k < length ?xs" "b = ?xs ! k" "l < length (medicines b)"
        "m = medicines b ! l"
      by (auto simp: in_set_conv_nth)
    with i others [of k l] show ?thesis by simp
  qed
  have after: "P (id_med m)" if "b \<in> set ?ys" "m \<in> set (medicines b)" for b m
  proof -
    from that obtain k l where "k < length ?ys" "b = ?ys ! k" "l < length (medicines b)"
        "m = medicines b ! l"
      by (auto simp: in_set_conv_nth)
    with i others [of "Suc i + k" l] show ?thesis by simp
  qed
  have len: "length (fst (doseBoxes rnd now ?xs t)) = i"
    using i by (simp add: doseBoxes_length)
  let ?tm = "snd (doseMedicines rnd now ?b (medicines ?b) ?t0)"
  have eq: "doseBoxes rnd now bs t =
      (fst (doseBoxes rnd now ?xs t) @
         ?b\<lparr>medicines := fst (doseMedicines rnd now ?b (medicines ?b) ?t0)\<rparr> #
         fst (doseBoxes rnd now ?ys ?tm),
       snd (doseBoxes rnd now ?ys ?tm))"
    by (subst split) (simp add: doseBoxes_append doseBoxes_Cons del: doseBoxes.simps(2))
  have g0: "?G t ?t0"
    by (rule doseBoxes_grows) (rule before)
  have g3: "?G ?tm (snd (doseBoxes rnd now bs t))"
    unfolding eq by simp (rule doseBoxes_grows, rule after)
  have nth: "medicines (fst (doseBoxes rnd now bs t) ! i) =
      fst (doseMedicines rnd now ?b (medicines ?b) ?t0)"
    unfolding eq using len by (simp add: nth_append)
  have rest: "\<And>k. k < length (medicines ?b) \<Longrightarrow> k \<noteq> j \<Longrightarrow> P (id_med (medicines ?b ! k))"
    using others [of i] i by simp
  have "\<exists>t1. ?G ?t0 t1 \<and>
      fst (doseMedicines rnd now ?b (medicines ?b) ?t0) ! j =
        fst (doseMedicine rnd now ?b (medicines ?b ! j) t1) \<and>
      ?G (snd (doseMedicine rnd now ?b (medicines ?b ! j) t1)) ?tm"
    using j rest by (rule doseMedicines_at [where P = P])
  then obtain t1 where t1: "?G ?t0 t1"
      "fst (doseMedicines rnd now ?b (medicines ?b) ?t0) ! j =
         fst (doseMedicine rnd now ?b (medicines ?b ! j) t1)"
      "?G (snd (doseMedicine rnd now ?b (medicines ?b ! j) t1)) ?tm"
    by blast
  from grows_trans [OF g0 t1(1)] nth t1(2) grows_trans [OF t1(3) g3]
  show ?thesis by auto
qed

lemma existingTimeAlert_grows:
  "grows (\<lambda>a. medicineId a \<noteq> x) t t' \<Longrightarrow>
   existingTimeAlert (alerts t') x tok d = None \<longleftrightarrow> existingTimeAlert (alerts t) x tok d = None"
  unfolding grows_def existingTimeAlert_def find_None_iff by auto

lemma doseMedicine_nonneg:
  "0 \<le> currentCount m \<Longrightarrow> 0 \<le> currentCount (fst (doseMedicine rnd now box m t))"
  by (simp add: doseMedicine_count due_def)

text \<open>The state in which a medicine is visited.\<close>

lemma deduct_name:
  assumes n: "name_box b' = name_box b"
  shows "deduct rnd now b' tok m t = deduct rnd now b tok m t"
proof -
  have 1: "timeAlert now b' = timeAlert now b"
    by (intro ext) (simp add: timeAlert_def n)
  have 2: "lowCountAlert now b' = lowCountAlert now b"
    by (intro ext) (simp add: lowCountAlert_def n)
  have 3: "outOfStockAlert now b' = outOfStockAlert now b"
    by (intro ext) (simp add: outOfStockAlert_def n)
  show ?thesis
    unfolding deduct_def 1 2 3 ..
qed

lemma doseMedicine_name:
  assumes n: "name_box b' = name_box b"
  shows "doseMedicine rnd now b' m t = doseMedicine rnd now b m t"
  unfolding doseMedicine_eq deduct_name [OF n] ..

lemma doseMedicines_name:
  assumes n: "name_box b' = name_box b"
  shows "doseMedicines rnd now b' ms t = doseMedicines rnd now b ms t"
proof (induction ms arbitrary: t)
  case Nil
  show ?case by simp
next
  case (Cons m ms)
  show ?case
    unfolding doseMedicines_Cons doseMedicine_name [OF n] Cons.IH ..
qed

lemma doseBoxes_visitedBefore:
  "snd (doseBoxes rnd now (visitedBefore bs i j) t) =
     snd (doseMedicines rnd now (bs ! i) (take j (medicines (bs ! i)))
            (snd (doseBoxes rnd now (take i bs) t)))"
proof -
  let ?b' = "(bs ! i)\<lparr>medicines := take j (medicines (bs ! i))\<rparr>"
  have "name_box ?b' = name_box (bs ! i)" by simp
  then have "doseMedicines rnd now ?b' = doseMedicines rnd now (bs ! i)"
    by (intro ext) (rule doseMedicines_name)
  then show ?thesis
    by (simp add: visitedBefore_def doseBoxes_append doseBoxes_Cons del: doseBoxes.simps(2))
qed

lemma doseMedicines_nth:
  assumes j: "j < length ms"
  shows "fst (doseMedicines rnd now box ms t) ! j =
      fst (doseMedicine rnd now box (ms ! j) (snd (doseMedicines rnd now box (take j ms) t)))"
proof -
  let ?xs = "take j ms" and ?ys = "drop (Suc j) ms"
  have split: "ms = ?xs @ (ms ! j) # ?ys"
    using j by (rule id_take_nth_drop)
  have len: "length (fst (doseMedicines rnd now box ?xs t)) = j"
    using j by (simp add: doseMedicines_length)
  have "fst (doseMedicines rnd now box (?xs @ (ms ! j) # ?ys) t) ! j =
      fst (doseMedicine rnd now box (ms ! j) (snd (doseMedicines rnd now box ?xs t)))"
    using len by (simp add: doseMedicines_append doseMedicines_Cons nth_append
          del: doseMedicines.simps(2))
  with split show ?thesis by simp
qed

lemma doseBoxes_nth:
  assumes i: "i < length bs"
  shows "medicines (fst (doseBoxes rnd now bs t) ! i) =
      fst (doseMedicines rnd now (bs ! i) (medicines (bs ! i)) (snd (doseBoxes rnd now (take i bs) t)))"
proof -
  let ?xs = "take i bs" and ?ys = "drop (Suc i) bs"
  have split: "bs = ?xs @ (bs ! i) # ?ys"
    using i by (rule id_take_nth_drop)
  have len: "length (fst (doseBoxes rnd now ?xs t)) = i"
    using i by (simp add: doseBoxes_length)
  have "medicines (fst (doseBoxes rnd now (?xs @ (bs ! i) # ?ys) t) ! i) =
      fst (doseMedicines rnd now (bs ! i) (medicines (bs ! i)) (snd (doseBoxes rnd now ?xs t)))"
    using len by (simp add: doseBoxes_append doseBoxes_Cons nth_append del: doseBoxes.simps(2))
  with split show ?thesis by simp
qed

lemma doseBoxes_visit:
  assumes i: "i < length bs" and j: "j < length (medicines (bs ! i))"
  shows "medicines (fst (doseBoxes rnd now bs t) ! i) ! j =
      fst (doseMedicine rnd now (bs ! i) (medicines (bs ! i) ! j)
             (snd (doseBoxes rnd now (visitedBefore bs i j) t)))"
  by (simp add: doseBoxes_nth [OF i] doseMedicines_nth [OF j] doseBoxes_visitedBefore)

text \<open>
  How a run changes the count of one medicine. The count of the medicine at any position
  decreases by exactly 1 when the \<^verbatim>\<open>HH:MM\<close> of the instant equals one of its schedule tokens, the
  count is positive and \<open>existingTimeAlert\<close> finds nothing among the stored alerts and those the
  run has raised before it reaches the medicine; otherwise the count is unchanged. When no other
  medicine carries the medicine's id, the stored alerts alone decide. A count that is not negative
  never becomes negative.
\<close>

theorem checkMedicineTimes_count:
  assumes i: "i < length (smart_medicine_boxes w)"
    and j: "j < length (medicines (smart_medicine_boxes w ! i))"
  shows
   "currentCount (medicineAt (snd (checkMedicineTimes rnd now w)) i j) =
      (if toTimeString5 now \<in> set (scheduleTimes (medicineAt w i j)) \<and>
          0 < currentCount (medicineAt w i j) \<and>
          existingTimeAlert (alertsBefore rnd now w i j) (id_med (medicineAt w i j))
            (toTimeString5 now) (toDateString now) = None
       then currentCount (medicineAt w i j) - 1
       else currentCount (medicineAt w i j)) \<and>
    (toTimeString5 now \<in> set (scheduleTimes (medicineAt w i j)) \<and>
     0 < currentCount (medicineAt w i j) \<and>
     existingTimeAlert (smart_medicine_alerts w) (id_med (medicineAt w i j))
       (toTimeString5 now) (toDateString now) = None \<and>
     soleId w i j
     \<longrightarrow>
     currentCount (medicineAt (snd (checkMedicineTimes rnd now w)) i j) =
       currentCount (medicineAt w i j) - 1) \<and>
    (0 \<le> currentCount (medicineAt w i j) \<longrightarrow>
     0 \<le> currentCount (medicineAt (snd (checkMedicineTimes rnd now w)) i j))"
proof -
  let ?bs = "smart_medicine_boxes w"
  let ?m = "medicines (?bs ! i) ! j"
  let ?t0 = "\<lparr>alerts = smart_medicine_alerts w, newAlerts = [], calls = random_calls w\<rparr>"
  let ?t1 = "snd (doseBoxes rnd now (visitedBefore ?bs i j) ?t0)"
  let ?m' = "medicines (smart_medicine_boxes (snd (checkMedicineTimes rnd now w)) ! i) ! j"
  have "?m' = medicines (fst (doseBoxes rnd now ?bs ?t0) ! i) ! j"
    by (simp add: checkMedicineTimes_def case_prod_beta)
  then have m': "?m' = fst (doseMedicine rnd now (?bs ! i) ?m ?t1)"
    by (simp add: doseBoxes_visit [OF i j])
  have before: "alertsBefore rnd now w i j = alerts ?t1"
    by (simp add: alertsBefore_def checkMedicineTimes_def case_prod_beta)
  have exact: "currentCount ?m' =
      (if toTimeString5 now \<in> set (scheduleTimes ?m) \<and> 0 < currentCount ?m \<and>
          existingTimeAlert (alertsBefore rnd now w i j) (id_med ?m)
            (toTimeString5 now) (toDateString now) = None
       then currentCount ?m - 1 else currentCount ?m)"
    unfolding m' before doseMedicine_count due_def by (rule if_cong) auto
  have nonneg: "0 \<le> currentCount ?m'" if "0 \<le> currentCount ?m"
    using that m' by (simp add: doseMedicine_nonneg)
  have one: "currentCount ?m' = currentCount ?m - 1"
    if tok: "toTimeString5 now \<in> set (scheduleTimes ?m)" and pos: "currentCount ?m > 0"
      and fresh: "existingTimeAlert (smart_medicine_alerts w) (id_med ?m)
                    (toTimeString5 now) (toDateString now) = None"
      and uniq: "\<forall>i' j'. i' < length ?bs \<and> j' < length (medicines (?bs ! i')) \<and> (i', j') \<noteq> (i, j) \<longrightarrow>
                   id_med (medicines (?bs ! i') ! j') \<noteq> id_med ?m"
  proof -
    from doseBoxes_at [OF i j, of "\<lambda>x. x \<noteq> id_med ?m" ?t0 rnd now] uniq
    obtain t1 where g: "grows (\<lambda>a. medicineId a \<noteq> id_med ?m) ?t0 t1"
      and eq: "medicines (fst (doseBoxes rnd now ?bs ?t0) ! i) ! j =
        fst (doseMedicine rnd now (?bs ! i) ?m t1)"
      by blast
    from existingTimeAlert_grows [OF g] fresh
    have "existingTimeAlert (alerts t1) (id_med ?m) (toTimeString5 now) (toDateString now) = None"
      by simp
    with tok pos have "due now (alerts t1) ?m (scheduleTimes ?m)"
      by (simp add: due_def)
    with eq \<open>?m' = medicines (fst (doseBoxes rnd now ?bs ?t0) ! i) ! j\<close> show ?thesis
      by (simp add: doseMedicine_count)
  qed
  from exact nonneg one show ?thesis by blast
qed

text \<open>
  C1. For every medicine in every box: when \<^verbatim>\<open>checkMedicineTimes\<close> runs at an instant whose
  \<^verbatim>\<open>HH:MM\<close> equals one of the medicine's schedule tokens, its \<open>currentCount\<close> is positive and no
  \<open>medicine_time\<close> alert for that medicine, token and calendar date exists, the count decreases by
  exactly 1. The run at 20:00 below fails this: the medicine is due at 08:00 and at 20:00, the only
  stored alert is the one raised for its 08:00 token, whose message carries the reminder text
  and with it the characters \<^verbatim>\<open>20:00\<close>; the run takes that alert for one of the 20:00 token,
  raises nothing and leaves the count at 9.
\<close>

theorem checkMedicineTimes_other_token_blocked:
  "scheduleTimes (medicineAt ex_morning 0 0) = [lit ''08:00'', lit ''20:00''] \<and>
   currentCount (medicineAt ex_morning 0 0) = 9 \<and>
   map type_alert (smart_medicine_alerts ex_morning) = [medicine_time] \<and>
   map message (smart_medicine_alerts ex_morning) =
     [lit ''Time to take your Vitamin D (08:00). Take at 08:00 and 20:00''] \<and>
   toTimeString5 eight_pm = lit ''20:00'' \<and>
   toDateString eight_pm = toDateString eight_am \<and>
   fst (checkMedicineTimes digits eight_pm ex_morning) = [] \<and>
   currentCount (medicineAt (snd (checkMedicineTimes digits eight_pm ex_morning)) 0 0) = 9"
  by code_simp

text \<open>A second run in the same minute.\<close>

lemma due_same_minute:
  "toTimeString5 now2 = toTimeString5 now \<Longrightarrow> toDateString now2 = toDateString now \<Longrightarrow>
   due now2 al m toks = due now al m toks"
  by (simp add: due_def)

lemma due_grows: "grows P t t' \<Longrightarrow> \<not> due now (alerts t) m toks \<Longrightarrow> \<not> due now (alerts t') m toks"
  unfolding grows_def due_def existingTimeAlert_def find_None_iff by auto

lemma doseMedicine_settled:
  "\<not> due now (alerts (snd (doseMedicine rnd now box m t))) (fst (doseMedicine rnd now box m t))
       (scheduleTimes (fst (doseMedicine rnd now box m t)))"
proof (cases "due now (alerts t) m (scheduleTimes m)")
  case True
  then have eq: "doseMedicine rnd now box m t = deduct rnd now box (toTimeString5 now) m t"
    by (simp add: doseMedicine_eq)
  have "id_med (fst (deduct rnd now box (toTimeString5 now) m t)) = id_med m"
    by (simp add: deduct_fst)
  with deduct_blocks [of rnd now box "toTimeString5 now" m t] show ?thesis
    unfolding eq by (simp add: due_def)
next
  case False
  then have "doseMedicine rnd now box m t = (m, t)"
    by (simp add: doseMedicine_eq)
  with False show ?thesis by simp
qed

lemma doseMedicines_settled:
  "m' \<in> set (fst (doseMedicines rnd now box ms t)) \<Longrightarrow>
   \<not> due now (alerts (snd (doseMedicines rnd now box ms t))) m' (scheduleTimes m')"
proof (induction ms arbitrary: t)
  case Nil
  then show ?case by simp
next
  case (Cons m ms)
  let ?t1 = "snd (doseMedicine rnd now box m t)"
  from Cons.prems consider "m' = fst (doseMedicine rnd now box m t)"
    | "m' \<in> set (fst (doseMedicines rnd now box ms ?t1))"
    by (auto simp: doseMedicines_Cons simp del: doseMedicines.simps(2))
  then show ?case
  proof cases
    case 1
    have "grows (\<lambda>a. True) ?t1 (snd (doseMedicines rnd now box ms ?t1))"
      by (rule doseMedicines_grows [where P = "\<lambda>_. True"]) simp
    from due_grows [OF this] doseMedicine_settled [of now rnd box m t] 1
    show ?thesis
      by (simp add: doseMedicines_Cons del: doseMedicines.simps(2))
  next
    case 2
    then show ?thesis
      using Cons.IH [of ?t1] by (simp add: doseMedicines_Cons del: doseMedicines.simps(2))
  qed
qed

lemma doseBoxes_settled:
  "b' \<in> set (fst (doseBoxes rnd now bs t)) \<Longrightarrow> m' \<in> set (medicines b') \<Longrightarrow>
   \<not> due now (alerts (snd (doseBoxes rnd now bs t))) m' (scheduleTimes m')"
proof (induction bs arbitrary: t)
  case Nil
  then show ?case by simp
next
  case (Cons b bs)
  let ?t1 = "snd (doseMedicines rnd now b (medicines b) t)"
  from Cons.prems(1) consider "b' = b\<lparr>medicines := fst (doseMedicines rnd now b (medicines b) t)\<rparr>"
    | "b' \<in> set (fst (doseBoxes rnd now bs ?t1))"
    by (auto simp: doseBoxes_Cons simp del: doseBoxes.simps(2))
  then show ?case
  proof cases
    case 1
    with Cons.prems(2) have "m' \<in> set (fst (doseMedicines rnd now b (medicines b) t))"
      by simp
    then have s: "\<not> due now (alerts ?t1) m' (scheduleTimes m')"
      by (rule doseMedicines_settled)
    have "grows (\<lambda>a. True) ?t1 (snd (doseBoxes rnd now bs ?t1))"
      by (rule doseBoxes_grows [where P = "\<lambda>_. True"]) simp
    from due_grows [OF this s] show ?thesis
      by (simp add: doseBoxes_Cons del: doseBoxes.simps(2))
  next
    case 2
    then show ?thesis
      using Cons.IH [of ?t1] Cons.prems(2)
      by (simp add: doseBoxes_Cons del: doseBoxes.simps(2))
  qed
qed

lemma doseMedicines_idle:
  "(\<And>m. m \<in> set ms \<Longrightarrow> \<not> due now (alerts t) m (scheduleTimes m)) \<Longrightarrow>
   doseMedicines rnd now box ms t = (ms, t)"
  by (induction ms) (simp_all add: doseMedicine_eq)

lemma doseBoxes_idle:
  "(\<And>b m. b \<in> set bs \<Longrightarrow> m \<in> set (medicines b) \<Longrightarrow> \<not> due now (alerts t) m (scheduleTimes m)) \<Longrightarrow>
   doseBoxes rnd now bs t = (bs, t)"
proof (induction bs)
  case Nil
  then show ?case by simp
next
  case (Cons b bs)
  have 1: "doseMedicines rnd now b (medicines b) t = (medicines b, t)"
    by (rule doseMedicines_idle) (use Cons.prems in auto)
  have 2: "doseBoxes rnd now bs t = (bs, t)"
    by (rule Cons.IH) (use Cons.prems in auto)
  from 1 2 show ?case by simp
qed

text \<open>
  C2. Running \<^verbatim>\<open>checkMedicineTimes\<close> a second time within the same clock minute and calendar
  date, from the state the first run produced, raises no alert at all (hence no duplicate
  \<open>medicine_time\<close> alert) and leaves every box, and so every count, as it was.
\<close>

theorem checkMedicineTimes_same_minute:
  assumes "toTimeString5 now2 = toTimeString5 now1" and "toDateString now2 = toDateString now1"
  shows "fst (checkMedicineTimes rnd2 now2 (snd (checkMedicineTimes rnd1 now1 w))) = [] \<and>
     smart_medicine_boxes (snd (checkMedicineTimes rnd2 now2 (snd (checkMedicineTimes rnd1 now1 w)))) =
       smart_medicine_boxes (snd (checkMedicineTimes rnd1 now1 w)) \<and>
     smart_medicine_alerts (snd (checkMedicineTimes rnd2 now2 (snd (checkMedicineTimes rnd1 now1 w)))) =
       smart_medicine_alerts (snd (checkMedicineTimes rnd1 now1 w))"
proof -
  let ?t0 = "\<lparr>alerts = smart_medicine_alerts w, newAlerts = [], calls = random_calls w\<rparr>"
  let ?r = "doseBoxes rnd1 now1 (smart_medicine_boxes w) ?t0"
  let ?w1 = "snd (checkMedicineTimes rnd1 now1 w)"
  have bs1: "smart_medicine_boxes ?w1 = fst ?r" and al1: "smart_medicine_alerts ?w1 = alerts (snd ?r)"
    by (simp_all add: checkMedicineTimes_def case_prod_beta)
  let ?t1 = "\<lparr>alerts = smart_medicine_alerts ?w1, newAlerts = [], calls = random_calls ?w1\<rparr>"
  have "\<not> due now2 (alerts ?t1) m (scheduleTimes m)"
    if "b \<in> set (smart_medicine_boxes ?w1)" "m \<in> set (medicines b)" for b m
    using that doseBoxes_settled [of b rnd1 now1 "smart_medicine_boxes w" ?t0 m]
    by (simp add: bs1 al1 due_same_minute [OF assms])
  then have "doseBoxes rnd2 now2 (smart_medicine_boxes ?w1) ?t1 = (smart_medicine_boxes ?w1, ?t1)"
    by (rule doseBoxes_idle)
  then show ?thesis
    by (simp add: checkMedicineTimes_def [of rnd2 now2])
qed

theorem checkMedicineTimes_same_minute_witness:
  "toTimeString5 (eight_am + 30000) = toTimeString5 eight_am \<and>
   toDateString (eight_am + 30000) = toDateString eight_am \<and>
   fst (checkMedicineTimes digits (eight_am + 30000)
     (snd (checkMedicineTimes digits eight_am
        (ex_world [ex_medicine ''m1'' 4, ex_medicine ''m2'' 1] [])))) = []"
proof -
  have t: "toTimeString5 (eight_am + 30000) = toTimeString5 eight_am"
    and d: "toDateString (eight_am + 30000) = toDateString eight_am"
    by (simp_all add: eight_am_def toTimeString5_def toDateString_def)
  from checkMedicineTimes_same_minute [OF t d, of digits digits
      "ex_world [ex_medicine ''m1'' 4, ex_medicine ''m2'' 1] []"] t d
  show ?thesis by simp
qed

text \<open>What one deduction raises.\<close>

lemma existingLowAlert_grows:
  "grows (\<lambda>a. medicineId a \<noteq> x) t t' \<Longrightarrow>
   existingLowAlert (alerts t') x = None \<longleftrightarrow> existingLowAlert (alerts t) x = None"
  unfolding grows_def existingLowAlert_def find_None_iff by auto

lemma existingLowAlert_push_time:
  "existingLowAlert (alerts (push_alert rnd (timeAlert now box m tok) t)) x = None \<longleftrightarrow>
   existingLowAlert (alerts t) x = None"
  unfolding existingLowAlert_def find_None_iff by (auto simp: push_alert_def timeAlert_fields)

lemma deduct_raises:
  assumes "currentCount m > 0"
  shows "\<exists>new. alerts (snd (deduct rnd now box tok m t)) = alerts t @ new \<and>
      newAlerts (snd (deduct rnd now box tok m t)) = newAlerts t @ new \<and>
      (\<forall>a \<in> set new. medicineId a = id_med m) \<and>
      map type_alert new =
        medicine_time #
        (if 1 < currentCount m \<and> currentCount m \<le> 4 \<and> existingLowAlert (alerts t) (id_med m) = None
         then [low_count] else []) @
        (if currentCount m = 1 then [out_of_stock] else [])"
proof -
  let ?m1 = "m\<lparr>currentCount := max 0 (currentCount m - 1), updatedAt_med := now\<rparr>"
  let ?t1 = "push_alert rnd (timeAlert now box ?m1 tok) t"
  have c1: "currentCount ?m1 = currentCount m - 1" and id1: "id_med ?m1 = id_med m"
    using assms by simp_all
  have low: "existingLowAlert (alerts ?t1) (id_med m) = None \<longleftrightarrow>
      existingLowAlert (alerts t) (id_med m) = None"
    by (rule existingLowAlert_push_time)
  show ?thesis
  proof (cases "existingLowAlert (alerts t) (id_med m)")
    case None
    with low have "existingLowAlert (alerts ?t1) (id_med m) = None" by simp
    with None assms show ?thesis
      by (simp add: deduct_def Let_def push_alert_def timeAlert_fields lowCountAlert_fields
            outOfStockAlert_fields)
  next
    case (Some a)
    with low obtain a' where "existingLowAlert (alerts ?t1) (id_med m) = Some a'"
      by (cases "existingLowAlert (alerts ?t1) (id_med m)") auto
    with Some assms show ?thesis
      by (simp add: deduct_def Let_def push_alert_def timeAlert_fields lowCountAlert_fields
            outOfStockAlert_fields)
  qed
qed

lemma raised_for:
  assumes g1: "grows (\<lambda>a. medicineId a \<noteq> x) t0 t1" and new0: "newAlerts t0 = []"
    and mine: "alerts t2 = alerts t1 @ new" "newAlerts t2 = newAlerts t1 @ new"
      "\<forall>a \<in> set new. medicineId a = x"
    and g2: "grows (\<lambda>a. medicineId a \<noteq> x) t2 t3"
  shows "filter (\<lambda>a. medicineId a = x) (newAlerts t3) = new"
proof -
  from g1 new0 obtain pre where pre: "newAlerts t1 = pre" "\<forall>a \<in> set pre. medicineId a \<noteq> x"
    by (auto simp: grows_def)
  from g2 obtain post where post: "newAlerts t3 = newAlerts t2 @ post"
      "\<forall>a \<in> set post. medicineId a \<noteq> x"
    by (auto simp: grows_def)
  have "filter (\<lambda>a. medicineId a = x) pre = []" "filter (\<lambda>a. medicineId a = x) post = []"
    "filter (\<lambda>a. medicineId a = x) new = new"
    using pre(2) post(2) mine(3) by (simp_all add: filter_empty_conv filter_id_conv)
  with pre(1) post(1) mine(2) show ?thesis by simp
qed

text \<open>
  C3. A dose tick that fires for a medicine with \<open>currentCount = 4\<close> (\<open>timesPerDay = 1\<close>, a matching
  schedule token, no blocking de-duplication alert: none stored, and no other medicine with the
  same id to raise one) sets the count to 3 and raises for it a \<open>medicine_time\<close> alert and exactly
  one \<open>low_count\<close> alert, no \<open>out_of_stock\<close> alert. With \<open>currentCount = 1\<close> it sets the count
  to 0 and raises a \<open>medicine_time\<close> and an \<open>out_of_stock\<close> alert, no \<open>low_count\<close> alert.
\<close>

theorem checkMedicineTimes_low_and_empty:
  assumes i: "i < length (smart_medicine_boxes w)"
    and j: "j < length (medicines (smart_medicine_boxes w ! i))"
    and tok: "toTimeString5 now \<in> set (scheduleTimes (medicineAt w i j))"
    and fresh: "existingTimeAlert (smart_medicine_alerts w) (id_med (medicineAt w i j))
        (toTimeString5 now) (toDateString now) = None"
    and uniq: "soleId w i j"
  shows
   "(currentCount (medicineAt w i j) = 4 \<and> timesPerDay (medicineAt w i j) = 1 \<and>
     existingLowAlert (smart_medicine_alerts w) (id_med (medicineAt w i j)) = None
     \<longrightarrow>
     currentCount (medicineAt (snd (checkMedicineTimes rnd now w)) i j) = 3 \<and>
     map type_alert (filter (\<lambda>a. medicineId a = id_med (medicineAt w i j))
                       (fst (checkMedicineTimes rnd now w))) = [medicine_time, low_count]) \<and>
    (currentCount (medicineAt w i j) = 1
     \<longrightarrow>
     currentCount (medicineAt (snd (checkMedicineTimes rnd now w)) i j) = 0 \<and>
     map type_alert (filter (\<lambda>a. medicineId a = id_med (medicineAt w i j))
                       (fst (checkMedicineTimes rnd now w))) = [medicine_time, out_of_stock])"
proof -
  let ?bs = "smart_medicine_boxes w"
  let ?m = "medicines (?bs ! i) ! j"
  let ?t0 = "\<lparr>alerts = smart_medicine_alerts w, newAlerts = [], calls = random_calls w\<rparr>"
  let ?m' = "medicines (smart_medicine_boxes (snd (checkMedicineTimes rnd now w)) ! i) ! j"
  let ?mine = "filter (\<lambda>a. medicineId a = id_med ?m) (fst (checkMedicineTimes rnd now w))"
  have m': "?m' = medicines (fst (doseBoxes rnd now ?bs ?t0) ! i) ! j"
    and out: "fst (checkMedicineTimes rnd now w) = newAlerts (snd (doseBoxes rnd now ?bs ?t0))"
    by (simp_all add: checkMedicineTimes_def case_prod_beta)
  have both: "currentCount ?m' = currentCount ?m - 1 \<and>
      map type_alert ?mine =
        medicine_time #
        (if 1 < currentCount ?m \<and> currentCount ?m \<le> 4 \<and>
            existingLowAlert (smart_medicine_alerts w) (id_med ?m) = None
         then [low_count] else []) @
        (if currentCount ?m = 1 then [out_of_stock] else [])"
    if pos: "currentCount ?m > 0"
  proof -
    from doseBoxes_at [OF i j, of "\<lambda>x. x \<noteq> id_med ?m" ?t0 rnd now] uniq
    obtain t1 where g1: "grows (\<lambda>a. medicineId a \<noteq> id_med ?m) ?t0 t1"
      and eq: "medicines (fst (doseBoxes rnd now ?bs ?t0) ! i) ! j =
        fst (doseMedicine rnd now (?bs ! i) ?m t1)"
      and g2: "grows (\<lambda>a. medicineId a \<noteq> id_med ?m) (snd (doseMedicine rnd now (?bs ! i) ?m t1))
        (snd (doseBoxes rnd now ?bs ?t0))"
      by blast
    from existingTimeAlert_grows [OF g1] fresh
    have "existingTimeAlert (alerts t1) (id_med ?m) (toTimeString5 now) (toDateString now) = None"
      by simp
    with tok pos have d: "due now (alerts t1) ?m (scheduleTimes ?m)"
      by (simp add: due_def)
    then have dm: "doseMedicine rnd now (?bs ! i) ?m t1 =
        deduct rnd now (?bs ! i) (toTimeString5 now) ?m t1"
      by (simp add: doseMedicine_eq)
    from deduct_raises [OF pos, of rnd now "?bs ! i" "toTimeString5 now" t1]
    obtain new where all: "alerts (snd (deduct rnd now (?bs ! i) (toTimeString5 now) ?m t1)) =
          alerts t1 @ new \<and>
        newAlerts (snd (deduct rnd now (?bs ! i) (toTimeString5 now) ?m t1)) = newAlerts t1 @ new \<and>
        (\<forall>a \<in> set new. medicineId a = id_med ?m) \<and>
        map type_alert new =
          medicine_time #
          (if 1 < currentCount ?m \<and> currentCount ?m \<le> 4 \<and>
              existingLowAlert (alerts t1) (id_med ?m) = None
           then [low_count] else []) @
          (if currentCount ?m = 1 then [out_of_stock] else [])" ..
    note new = all [THEN conjunct1] all [THEN conjunct2, THEN conjunct1]
      all [THEN conjunct2, THEN conjunct2, THEN conjunct1]
      all [THEN conjunct2, THEN conjunct2, THEN conjunct2]
    have low: "existingLowAlert (alerts t1) (id_med ?m) = None \<longleftrightarrow>
        existingLowAlert (smart_medicine_alerts w) (id_med ?m) = None"
      using existingLowAlert_grows [OF g1] by simp
    have "filter (\<lambda>a. medicineId a = id_med ?m) (newAlerts (snd (doseBoxes rnd now ?bs ?t0))) = new"
      by (rule raised_for [OF g1 _ new(1,2,3)]) (use g2 dm in simp_all)
    with new(4) low out have "map type_alert ?mine =
        medicine_time #
        (if 1 < currentCount ?m \<and> currentCount ?m \<le> 4 \<and>
            existingLowAlert (smart_medicine_alerts w) (id_med ?m) = None
         then [low_count] else []) @
        (if currentCount ?m = 1 then [out_of_stock] else [])"
      by simp
    moreover have "currentCount ?m' = currentCount ?m - 1"
      using d eq m' by (simp add: doseMedicine_count)
    ultimately show ?thesis by blast
  qed
  show ?thesis
  proof (intro conjI impI)
    assume a: "currentCount ?m = 4 \<and> timesPerDay ?m = 1 \<and>
      existingLowAlert (smart_medicine_alerts w) (id_med ?m) = None"
    then have "currentCount ?m > 0" by simp
    from both [OF this] a show "currentCount ?m' = 3" by simp
    from both [OF \<open>currentCount ?m > 0\<close>] a
    show "map type_alert ?mine = [medicine_time, low_count]" by simp
  next
    assume a: "currentCount ?m = 1"
    then have "currentCount ?m > 0" by simp
    from both [OF this] a show "currentCount ?m' = 0" by simp
    from both [OF \<open>currentCount ?m > 0\<close>] a
    show "map type_alert ?mine = [medicine_time, out_of_stock]" by simp
  qed
qed

theorem checkMedicineTimes_low_and_empty_witness:
  "currentCount (medicineAt (snd (checkMedicineTimes digits eight_am
      (ex_world [ex_medicine ''m1'' 4, ex_medicine ''m2'' 1] []))) 0 0) = 3 \<and>
   map type_alert (filter (\<lambda>a. medicineId a = (lit ''m1''))
      (fst (checkMedicineTimes digits eight_am
         (ex_world [ex_medicine ''m1'' 4, ex_medicine ''m2'' 1] [])))) = [medicine_time, low_count] \<and>
   currentCount (medicineAt (snd (checkMedicineTimes digits eight_am
      (ex_world [ex_medicine ''m1'' 4, ex_medicine ''m2'' 1] []))) 0 1) = 0 \<and>
   map type_alert (filter (\<lambda>a. medicineId a = (lit ''m2''))
      (fst (checkMedicineTimes digits eight_am
         (ex_world [ex_medicine ''m1'' 4, ex_medicine ''m2'' 1] [])))) = [medicine_time, out_of_stock]"
proof -
  let ?w = "ex_world [ex_medicine ''m1'' 4, ex_medicine ''m2'' 1] []"
  have i: "0 < length (smart_medicine_boxes ?w)"
    and j0: "0 < length (medicines (smart_medicine_boxes ?w ! 0))"
    and j1: "1 < length (medicines (smart_medicine_boxes ?w ! 0))"
    and m0: "medicines (smart_medicine_boxes ?w ! 0) ! 0 = ex_medicine ''m1'' 4"
    and m1: "medicines (smart_medicine_boxes ?w ! 0) ! 1 = ex_medicine ''m2'' 1"
    and al: "smart_medicine_alerts ?w = []"
    by (simp_all add: ex_world_def ex_box_def lit_def)
  have fresh: "existingTimeAlert [] x (toTimeString5 eight_am) (toDateString eight_am) = None"
    and low: "existingLowAlert [] x = None" for x
    by (simp_all add: existingTimeAlert_def existingLowAlert_def)
  have f: "currentCount (ex_medicine x c) = c" "id_med (ex_medicine x c) = lit x"
    "timesPerDay (ex_medicine x c) = 1" for x c
    by (simp_all add: ex_medicine_def lit_def)
  have tok0: "toTimeString5 eight_am \<in> set (scheduleTimes (medicines (smart_medicine_boxes ?w ! 0) ! 0))"
    and tok1: "toTimeString5 eight_am \<in> set (scheduleTimes (medicines (smart_medicine_boxes ?w ! 0) ! 1))"
    unfolding m0 m1 by (rule eight_am_token)+
  have fresh0: "existingTimeAlert (smart_medicine_alerts ?w)
        (id_med (medicines (smart_medicine_boxes ?w ! 0) ! 0)) (toTimeString5 eight_am)
        (toDateString eight_am) = None"
    and fresh1: "existingTimeAlert (smart_medicine_alerts ?w)
        (id_med (medicines (smart_medicine_boxes ?w ! 0) ! 1)) (toTimeString5 eight_am)
        (toDateString eight_am) = None"
    unfolding al by (rule fresh)+
  from checkMedicineTimes_low_and_empty [OF i j0 tok0 fresh0 ex_unique, of digits]
    checkMedicineTimes_low_and_empty [OF i j1 tok1 fresh1 ex_unique2, of digits]
  show ?thesis
    unfolding m0 m1 al f by (simp add: low)
qed

text \<open>The low-stock check.\<close>

lemma lowStock_iff:
  "lowStock m \<longleftrightarrow>
     0 < real_of_int (currentCount m) / real_of_int (timesPerDay m) \<and>
     real_of_int (currentCount m) / real_of_int (timesPerDay m) \<le> 3"
  by (auto simp: lowStock_def daysRemaining_def)

lemma existingAlert_None:
  "existingAlert al x = None \<longleftrightarrow> \<not> (\<exists>a \<in> set al. medicineId a = x \<and> type_alert a = low_count)"
  unfolding existingAlert_def find_None_iff by auto

lemma lowMedicine_lowFor:
  "(lowFor x (alerts (lowMedicine rnd now box m t)) \<longleftrightarrow>
      lowFor x (alerts t) \<or> (id_med m = x \<and> lowStock m)) \<and>
   (lowFor x (newAlerts (lowMedicine rnd now box m t)) \<longleftrightarrow>
      lowFor x (newAlerts t) \<or> (\<not> lowFor x (alerts t) \<and> id_med m = x \<and> lowStock m))"
proof (cases "existingAlert (alerts t) (id_med m)")
  case None
  then have "\<not> lowFor (id_med m) (alerts t)"
    by (simp add: existingAlert_None lowFor_def)
  with None show ?thesis
    by (auto simp: lowMedicine_def push_alert_def lowCountAlert_fields lowFor_def)
next
  case (Some a)
  then have "lowFor (id_med m) (alerts t)"
    using existingAlert_None [of "alerts t" "id_med m"] by (simp add: lowFor_def)
  with Some show ?thesis
    by (auto simp: lowMedicine_def)
qed

lemma fold_lowMedicine_lowFor:
  "(lowFor x (alerts (fold (lowMedicine rnd now box) ms t)) \<longleftrightarrow>
      lowFor x (alerts t) \<or> (\<exists>m \<in> set ms. id_med m = x \<and> lowStock m)) \<and>
   (lowFor x (newAlerts (fold (lowMedicine rnd now box) ms t)) \<longleftrightarrow>
      lowFor x (newAlerts t) \<or>
      (\<not> lowFor x (alerts t) \<and> (\<exists>m \<in> set ms. id_med m = x \<and> lowStock m)))"
proof (induction ms arbitrary: t)
  case Nil
  then show ?case by simp
next
  case (Cons m ms)
  from Cons.IH [of "lowMedicine rnd now box m t"] lowMedicine_lowFor [of x rnd now box m t]
  show ?case by simp blast
qed

lemma lowBoxes_lowFor:
  "(lowFor x (alerts (lowBoxes rnd now bs t)) \<longleftrightarrow>
      lowFor x (alerts t) \<or> (\<exists>b \<in> set bs. \<exists>m \<in> set (medicines b). id_med m = x \<and> lowStock m)) \<and>
   (lowFor x (newAlerts (lowBoxes rnd now bs t)) \<longleftrightarrow>
      lowFor x (newAlerts t) \<or>
      (\<not> lowFor x (alerts t) \<and>
       (\<exists>b \<in> set bs. \<exists>m \<in> set (medicines b). id_med m = x \<and> lowStock m)))"
proof (induction bs arbitrary: t)
  case Nil
  then show ?case by (simp add: lowBoxes_def)
next
  case (Cons b bs)
  let ?t' = "fold (lowMedicine rnd now b) (medicines b) t"
  have step: "lowBoxes rnd now (b # bs) t = lowBoxes rnd now bs ?t'"
    by (simp add: lowBoxes_def)
  from Cons.IH [of ?t'] fold_lowMedicine_lowFor [of x rnd now b "medicines b" t]
  show ?case unfolding step by simp blast
qed

text \<open>
  C6. \<^verbatim>\<open>checkLowMedicines\<close> raises a \<open>low_count\<close> alert for a medicine (an alert that carries its
  id) if and only if a medicine with that id has \<open>0 < currentCount / timesPerDay \<le> 3\<close> (division
  of reals) and the alert store holds no \<open>low_count\<close> alert for that id, read or unread. For a
  medicine that is the only one with its id: if and only if that medicine has
  \<open>0 < currentCount / timesPerDay \<le> 3\<close> and no \<open>low_count\<close> alert for it is stored.
\<close>

theorem checkLowMedicines_emits:
  "((\<exists>a \<in> set (fst (checkLowMedicines rnd now w)). medicineId a = x \<and> type_alert a = low_count)
    \<longleftrightarrow>
    (\<exists>box \<in> set (smart_medicine_boxes w). \<exists>m \<in> set (medicines box).
        id_med m = x \<and>
        0 < real_of_int (currentCount m) / real_of_int (timesPerDay m) \<and>
        real_of_int (currentCount m) / real_of_int (timesPerDay m) \<le> 3) \<and>
    \<not> (\<exists>a \<in> set (smart_medicine_alerts w). medicineId a = x \<and> type_alert a = low_count)) \<and>
   (b \<in> set (smart_medicine_boxes w) \<and> med \<in> set (medicines b) \<and>
    (\<forall>box \<in> set (smart_medicine_boxes w). \<forall>m \<in> set (medicines box).
        id_med m = id_med med \<longrightarrow> m = med)
    \<longrightarrow>
    ((\<exists>a \<in> set (fst (checkLowMedicines rnd now w)).
         medicineId a = id_med med \<and> type_alert a = low_count)
     \<longleftrightarrow>
     0 < real_of_int (currentCount med) / real_of_int (timesPerDay med) \<and>
     real_of_int (currentCount med) / real_of_int (timesPerDay med) \<le> 3 \<and>
     \<not> (\<exists>a \<in> set (smart_medicine_alerts w).
          medicineId a = id_med med \<and> type_alert a = low_count)))"
proof -
  let ?t0 = "\<lparr>alerts = smart_medicine_alerts w, newAlerts = [], calls = random_calls w\<rparr>"
  have out: "fst (checkLowMedicines rnd now w) = newAlerts (lowBoxes rnd now (smart_medicine_boxes w) ?t0)"
    by (simp add: checkLowMedicines_def Let_def)
  have gen: "lowFor y (fst (checkLowMedicines rnd now w)) \<longleftrightarrow>
      (\<exists>box \<in> set (smart_medicine_boxes w). \<exists>m \<in> set (medicines box). id_med m = y \<and> lowStock m) \<and>
      \<not> lowFor y (smart_medicine_alerts w)" for y
    unfolding out using lowBoxes_lowFor [of y rnd now "smart_medicine_boxes w" ?t0]
    by (auto simp: lowFor_def)
  have only: "(\<exists>box \<in> set (smart_medicine_boxes w). \<exists>m \<in> set (medicines box).
        id_med m = id_med med \<and> lowStock m) \<longleftrightarrow> lowStock med"
    if "b \<in> set (smart_medicine_boxes w)" "med \<in> set (medicines b)"
      "\<forall>box \<in> set (smart_medicine_boxes w). \<forall>m \<in> set (medicines box).
          id_med m = id_med med \<longrightarrow> m = med"
    using that by blast
  from gen [of x] gen [of "id_med med"] only show ?thesis
    unfolding lowFor_def lowStock_iff by blast
qed

theorem checkLowMedicines_emits_witness:
  "(\<exists>a \<in> set (fst (checkLowMedicines digits eight_am
        (ex_world [ex_medicine ''m1'' 3, ex_medicine ''m2'' 20] []))).
      medicineId a = (lit ''m1'') \<and> type_alert a = low_count) \<and>
   \<not> (\<exists>a \<in> set (fst (checkLowMedicines digits eight_am
        (ex_world [ex_medicine ''m1'' 3, ex_medicine ''m2'' 20] []))).
      medicineId a = (lit ''m2'') \<and> type_alert a = low_count)"
  using checkLowMedicines_emits [where rnd = digits and now = eight_am
      and w = "ex_world [ex_medicine ''m1'' 3, ex_medicine ''m2'' 20] []" and x = "(lit ''m1'')"
      and b = "ex_box [ex_medicine ''m1'' 3, ex_medicine ''m2'' 20]"
      and med = "ex_medicine ''m2'' 20"]
  by (simp add: ex_world_def ex_box_def ex_medicine_def lit_def)

lemma filter_length_same: "length (filter P xs) = length xs \<longleftrightarrow> (\<forall>x\<in>set xs. P x)"
proof
  assume eq: "length (filter P xs) = length xs"
  show "\<forall>x\<in>set xs. P x"
  proof
    fix x assume "x \<in> set xs"
    then show "P x" using eq length_filter_less [of x xs P] by auto
  qed
next
  assume "\<forall>x\<in>set xs. P x"
  then show "length (filter P xs) = length xs" by simp
qed

text \<open>
  C9, as amended. \<^verbatim>\<open>ESP32Service.disconnect\<close> reports \<open>success = true\<close> when the request is
  answered with a 2xx status and when it throws (network failure or timeout: the device is
  unreachable); answered with any other status it reports \<open>success = false\<close> and the message
  \<^verbatim>\<open>Disconnect signal failed\<close>.
\<close>

theorem disconnect_success:
  "(success (disconnect r) \<longleftrightarrow>
      r = NetworkError \<or> r = Timeout \<or> (\<exists>status. r = Response status \<and> 200 \<le> status \<and> status \<le> 299)) \<and>
   (\<not> success (disconnect r) \<longrightarrow> message_reply (disconnect r) = (lit ''Disconnect signal failed''))"
  by (cases r) (auto simp: disconnect_def ok_def)

theorem disconnect_success_witness:
  "\<not> success (disconnect (Response 404)) \<and>
   message_reply (disconnect (Response 404)) = (lit ''Disconnect signal failed'')"
  using disconnect_success [of "Response 404"] by (simp add: disconnect_def ok_def)

theorem disconnect_counterexample: "success (disconnect (Response 500)) = False"
  by (simp add: disconnect_def ok_def)

text \<open>
  C10. \<^verbatim>\<open>checkLowMedicines\<close> leaves the stored boxes, with every field of every medicine, as
  they were; its only write is to the alerts collection.
\<close>

theorem checkLowMedicines_frame:
  "smart_medicine_boxes (snd (checkLowMedicines rnd now w)) = smart_medicine_boxes w \<and>
   saveToStorage_log (snd (checkLowMedicines rnd now w)) = saveToStorage_log w @ [ALERTS]"
  by (simp add: checkLowMedicines_def Let_def)

theorem checkLowMedicines_frame_witness:
  "smart_medicine_boxes (snd (checkLowMedicines digits eight_am
      (ex_world [ex_medicine ''m1'' 3, ex_medicine ''m2'' 20] []))) =
     [ex_box [ex_medicine ''m1'' 3, ex_medicine ''m2'' 20]] \<and>
   saveToStorage_log (snd (checkLowMedicines digits eight_am
      (ex_world [ex_medicine ''m1'' 3, ex_medicine ''m2'' 20] []))) = [ALERTS]"
  using checkLowMedicines_frame [of digits eight_am
      "ex_world [ex_medicine ''m1'' 3, ex_medicine ''m2'' 20] []"]
  by (simp add: ex_world_def lit_def)
text \<open>
  C4. \<^verbatim>\<open>getAlerts\<close> returns exactly the alerts created less than 24 hours before the current
  instant (one created 25 hours ago is absent, one created 23 hours ago is present), the store
  holds the returned list afterwards, and the store is written if and only if at least one
  alert was dropped.
\<close>

theorem getAlerts_retention:
  "fst (getAlerts now w) =
     filter (\<lambda>alert. now - createdAt_alert alert < 24 * 60 * 60 * 1000) (smart_medicine_alerts w) \<and>
   smart_medicine_alerts (snd (getAlerts now w)) = fst (getAlerts now w) \<and>
   (\<forall>a \<in> set (smart_medicine_alerts w).
      (createdAt_alert a = now - 25 * 60 * 60 * 1000 \<longrightarrow> a \<notin> set (fst (getAlerts now w))) \<and>
      (createdAt_alert a = now - 23 * 60 * 60 * 1000 \<longrightarrow> a \<in> set (fst (getAlerts now w)))) \<and>
   saveToStorage_log (snd (getAlerts now w)) =
     (if \<exists>a \<in> set (smart_medicine_alerts w). a \<notin> set (fst (getAlerts now w))
      then saveToStorage_log w @ [ALERTS] else saveToStorage_log w)"
proof -
  let ?P = "\<lambda>alert. createdAt_alert alert > now - 24 * 60 * 60 * 1000"
  let ?al = "smart_medicine_alerts w"
  have r: "fst (getAlerts now w) = filter ?P ?al"
    by (simp add: getAlerts_def Let_def)
  have same: "length (filter ?P ?al) = length ?al \<longleftrightarrow> (\<forall>x\<in>set ?al. ?P x)"
    by (rule filter_length_same)
  have c1: "fst (getAlerts now w) =
     filter (\<lambda>alert. now - createdAt_alert alert < 24 * 60 * 60 * 1000) ?al"
    unfolding r by (rule filter_cong) auto
  have c2: "smart_medicine_alerts (snd (getAlerts now w)) = fst (getAlerts now w)"
  proof (cases "length (filter ?P ?al) = length ?al")
    case True
    then have "filter ?P ?al = ?al" using same by simp
    with True show ?thesis by (simp add: getAlerts_def Let_def)
  next
    case False
    then show ?thesis by (simp add: getAlerts_def Let_def)
  qed
  have c3: "\<forall>a \<in> set ?al.
      (createdAt_alert a = now - 25 * 60 * 60 * 1000 \<longrightarrow> a \<notin> set (fst (getAlerts now w))) \<and>
      (createdAt_alert a = now - 23 * 60 * 60 * 1000 \<longrightarrow> a \<in> set (fst (getAlerts now w)))"
    unfolding r by auto
  have removed: "(\<exists>a \<in> set ?al. a \<notin> set (fst (getAlerts now w))) \<longleftrightarrow>
      length (filter ?P ?al) \<noteq> length ?al"
    unfolding r same by auto
  have c4: "saveToStorage_log (snd (getAlerts now w)) =
     (if \<exists>a \<in> set ?al. a \<notin> set (fst (getAlerts now w))
      then saveToStorage_log w @ [ALERTS] else saveToStorage_log w)"
    unfolding removed by (simp add: getAlerts_def Let_def)
  from c1 c2 c3 c4 show ?thesis by blast
qed

theorem getAlerts_retention_witness:
  "fst (getAlerts (100 * 60 * 60 * 1000)
      (ex_world [] [ex_alert ''a1'' ''m1'' False (75 * 60 * 60 * 1000),
                    ex_alert ''a2'' ''m1'' False (77 * 60 * 60 * 1000)])) =
     [ex_alert ''a2'' ''m1'' False (77 * 60 * 60 * 1000)] \<and>
   saveToStorage_log (snd (getAlerts (100 * 60 * 60 * 1000)
      (ex_world [] [ex_alert ''a1'' ''m1'' False (75 * 60 * 60 * 1000),
                    ex_alert ''a2'' ''m1'' False (77 * 60 * 60 * 1000)]))) = [ALERTS]"
  using getAlerts_retention [of "100 * 60 * 60 * 1000"
      "ex_world [] [ex_alert ''a1'' ''m1'' False (75 * 60 * 60 * 1000),
                    ex_alert ''a2'' ''m1'' False (77 * 60 * 60 * 1000)]"]
  by (simp add: ex_world_def ex_alert_def lit_def)

lemma findIndex_None: "findIndex P xs = None \<longleftrightarrow> (\<forall>x\<in>set xs. \<not> P x)"
  by (induction xs) (auto split: option.splits)



lemma filter_set_isRead:
  "filter (\<lambda>a. \<not> isRead a) (set_isRead x al) =
     filter (\<lambda>a. \<not> isRead a)
       (takeWhile (\<lambda>a. id_alert a \<noteq> x) al @ tl (dropWhile (\<lambda>a. id_alert a \<noteq> x) al))"
  by (induction al) auto

text \<open>
  C7, as amended. \<^verbatim>\<open>markAlertAsRead\<close> with an id that a stored alert carries takes the first alert
  carrying that id out of the persisted store: what is stored afterwards is drawn, in order, from
  the other alerts, and every unread one of them is still there. With an id that no stored alert
  carries the store is unchanged.
\<close>

theorem markAlertAsRead_removes:
  "(if \<exists>a \<in> set (smart_medicine_alerts w). id_alert a = alertId
    then subseq (smart_medicine_alerts (markAlertAsRead alertId w))
           (takeWhile (\<lambda>a. id_alert a \<noteq> alertId) (smart_medicine_alerts w) @
            tl (dropWhile (\<lambda>a. id_alert a \<noteq> alertId) (smart_medicine_alerts w))) \<and>
         filter (\<lambda>a. \<not> isRead a) (smart_medicine_alerts (markAlertAsRead alertId w)) =
         filter (\<lambda>a. \<not> isRead a)
           (takeWhile (\<lambda>a. id_alert a \<noteq> alertId) (smart_medicine_alerts w) @
            tl (dropWhile (\<lambda>a. id_alert a \<noteq> alertId) (smart_medicine_alerts w)))
    else smart_medicine_alerts (markAlertAsRead alertId w) = smart_medicine_alerts w)"
proof (cases "find (\<lambda>a. id_alert a = alertId) (smart_medicine_alerts w)")
  case None
  then have "\<not> (\<exists>a \<in> set (smart_medicine_alerts w). id_alert a = alertId)"
    by (auto simp: find_None_iff)
  with None show ?thesis by (simp add: markAlertAsRead_def)
next
  case (Some a)
  let ?rest = "takeWhile (\<lambda>a. id_alert a \<noteq> alertId) (smart_medicine_alerts w) @
      tl (dropWhile (\<lambda>a. id_alert a \<noteq> alertId) (smart_medicine_alerts w))"
  from Some have "find (\<lambda>a. id_alert a = alertId) (smart_medicine_alerts w) \<noteq> None"
    by simp
  then have ex: "\<exists>a \<in> set (smart_medicine_alerts w). id_alert a = alertId"
    unfolding find_None_iff by blast
  from Some have after: "smart_medicine_alerts (markAlertAsRead alertId w) =
      filter (\<lambda>a. \<not> isRead a) ?rest"
    by (simp add: markAlertAsRead_def filter_set_isRead)
  have "subseq (filter (\<lambda>a. \<not> isRead a) ?rest) ?rest"
    by (rule subseq_filter_left)
  with ex show ?thesis
    unfolding after by simp
qed

theorem markAlertAsRead_removes_witness:
  "filter (\<lambda>a. \<not> isRead a) (smart_medicine_alerts (markAlertAsRead (lit ''a2'')
      (ex_world [] [ex_alert ''a1'' ''m1'' False 0, ex_alert ''a2'' ''m1'' False 0,
                    ex_alert ''a3'' ''m1'' False 0]))) =
     [ex_alert ''a1'' ''m1'' False 0, ex_alert ''a3'' ''m1'' False 0] \<and>
   subseq (smart_medicine_alerts (markAlertAsRead (lit ''a2'')
      (ex_world [] [ex_alert ''a1'' ''m1'' False 0, ex_alert ''a2'' ''m1'' False 0,
                    ex_alert ''a3'' ''m1'' False 0])))
     [ex_alert ''a1'' ''m1'' False 0, ex_alert ''a3'' ''m1'' False 0]"
  using markAlertAsRead_removes [of "ex_world [] [ex_alert ''a1'' ''m1'' False 0,
      ex_alert ''a2'' ''m1'' False 0, ex_alert ''a3'' ''m1'' False 0]" "lit ''a2''"]
  by (simp add: ex_world_def ex_alert_def lit_def)

theorem markAlertAsRead_counterexample:
  "smart_medicine_alerts (markAlertAsRead (lit ''a1'')
      (ex_world [] [ex_alert ''a1'' ''m1'' False 0, ex_alert ''a2'' ''m1'' False 0])) =
     [ex_alert ''a2'' ''m1'' False 0]"
  by (simp add: markAlertAsRead_def ex_world_def ex_alert_def lit_def)

lemma find_findIndex:
  "find P xs = Some x \<Longrightarrow> \<exists>k. findIndex P xs = Some k \<and> xs ! k = x"
  by (induction xs) (auto split: if_splits)

text \<open>
  C8, as amended. With a box id that matches no box, \<^verbatim>\<open>updateMedicineBox\<close>, \<^verbatim>\<open>addMedicine\<close>,
  \<^verbatim>\<open>updateMedicine\<close> and \<^verbatim>\<open>deleteMedicine\<close> reject with \<^verbatim>\<open>Medicine box not found\<close>;
  \<^verbatim>\<open>updateMedicine\<close> on an existing box with a medicine id that matches none of its medicines
  rejects with \<^verbatim>\<open>Medicine not found\<close>; \<^verbatim>\<open>deleteMedicineBox\<close> with a box id that matches no box
  resolves normally. In each case the stored boxes and alerts are unchanged and nothing is
  written.
\<close>

theorem not_found_outcomes:
  assumes "\<forall>box \<in> set (smart_medicine_boxes w). id_box box \<noteq> bid"
  shows "updateMedicineBox bid ub now w = (Inl Medicine_box_not_found, w) \<and>
    addMedicine rnd bid d now w =
      (Inl Medicine_box_not_found, w\<lparr>random_calls := Suc (random_calls w)\<rparr>) \<and>
    updateMedicine bid mid um now w = (Inl Medicine_box_not_found, w) \<and>
    deleteMedicine bid mid now w = (Inl Medicine_box_not_found, w) \<and>
    deleteMedicineBox bid w = (Inr (), w) \<and>
    (find (\<lambda>box. id_box box = bid2) (smart_medicine_boxes w) = Some b \<and>
     (\<forall>med \<in> set (medicines b). id_med med \<noteq> mid) \<longrightarrow>
     updateMedicine bid2 mid um now w = (Inl Medicine_not_found, w))"
proof -
  from assms have none: "findIndex (\<lambda>box. id_box box = bid) (smart_medicine_boxes w) = None"
    by (simp add: findIndex_None)
  from assms have none': "find (\<lambda>box. id_box box = bid) (smart_medicine_boxes w) = None"
    by (simp add: find_None_iff)
  have last: "updateMedicine bid2 mid um now w = (Inl Medicine_not_found, w)"
    if b: "find (\<lambda>box. id_box box = bid2) (smart_medicine_boxes w) = Some b"
      and m: "\<forall>med \<in> set (medicines b). id_med med \<noteq> mid"
  proof -
    from find_findIndex [OF b]
    obtain k where k: "findIndex (\<lambda>box. id_box box = bid2) (smart_medicine_boxes w) = Some k"
        "smart_medicine_boxes w ! k = b"
      by blast
    from m have "findIndex (\<lambda>med. id_med med = mid) (medicines b) = None"
      by (simp add: findIndex_None)
    with k show ?thesis
      by (simp add: updateMedicine_def Let_def)
  qed
  from none none' last show ?thesis
    by (simp add: updateMedicineBox_def addMedicine_def updateMedicine_def deleteMedicine_def
          deleteMedicineBox_def Let_def)
qed

theorem not_found_outcomes_witness:
  "fst (updateMedicineBox (lit ''b2'') ex_box_updates eight_am (ex_world [ex_medicine ''m1'' 4] [])) =
     Inl Medicine_box_not_found \<and>
   fst (addMedicine digits (lit ''b2'') ex_data eight_am (ex_world [ex_medicine ''m1'' 4] [])) =
     Inl Medicine_box_not_found \<and>
   fst (deleteMedicine (lit ''b2'') (lit ''m2'') eight_am (ex_world [ex_medicine ''m1'' 4] [])) =
     Inl Medicine_box_not_found \<and>
   updateMedicine (lit ''b2'') (lit ''m2'') ex_med_updates eight_am (ex_world [ex_medicine ''m1'' 4] []) =
     (Inl Medicine_box_not_found, ex_world [ex_medicine ''m1'' 4] []) \<and>
   updateMedicine (lit ''b1'') (lit ''m2'') ex_med_updates eight_am (ex_world [ex_medicine ''m1'' 4] []) =
     (Inl Medicine_not_found, ex_world [ex_medicine ''m1'' 4] [])"
  using not_found_outcomes [where w = "ex_world [ex_medicine ''m1'' 4] []" and bid = "(lit ''b2'')"
      and ?bid2.0 = "(lit ''b1'')" and b = "ex_box [ex_medicine ''m1'' 4]" and mid = "(lit ''m2'')"
      and now = eight_am and um = ex_med_updates and ub = ex_box_updates and rnd = digits
      and d = ex_data]
  by (simp add: ex_world_def ex_box_def ex_medicine_def lit_def)

theorem deleteMedicineBox_counterexample:
  "map id_box (smart_medicine_boxes (ex_world [ex_medicine ''m1'' 4] [])) = [(lit ''b1'')] \<and>
   fst (deleteMedicineBox (lit ''b2'') (ex_world [ex_medicine ''m1'' 4] [])) = Inr ()"
  by (simp add: deleteMedicineBox_def ex_world_def ex_box_def lit_def)

end
